theory Spec2Isabelle
  imports Main
begin

section \<open>JavaScript values and string helpers\<close>

text \<open>
  The two module-level variables \<^verbatim>\<open>base64ImageData\<close> and \<^verbatim>\<open>mimeType\<close> start as
  \<^verbatim>\<open>null\<close> and later hold a string, or \<^verbatim>\<open>undefined\<close> when
  \<^verbatim>\<open>reader.result.split(',')[1]\<close> reads past the end of the array.
\<close>

datatype jsval = Null | Undefined | Str string

text \<open>JavaScript truthiness, as used by \<^verbatim>\<open>!x\<close> and \<^verbatim>\<open>x || y\<close>: the empty string is falsy.\<close>

fun truthy :: "jsval \<Rightarrow> bool" where
  "truthy Null = False"
| "truthy Undefined = False"
| "truthy (Str s) = (s \<noteq> [])"

text \<open>What a template literal \<^verbatim>\<open>`${x}`\<close> prints.\<close>

fun to_string :: "jsval \<Rightarrow> string" where
  "to_string Null = ''null''"
| "to_string Undefined = ''undefined''"
| "to_string (Str s) = s"

text \<open>An optional string property of an object: \<^verbatim>\<open>undefined\<close> when missing.\<close>

fun of_option :: "string option \<Rightarrow> jsval" where
  "of_option None = Undefined"
| "of_option (Some s) = Str s"

text \<open>\<^verbatim>\<open>s.startsWith(p)\<close>.\<close>

definition startsWith :: "string \<Rightarrow> string \<Rightarrow> bool" where
  "startsWith s p = (take (length p) s = p)"

text \<open>
  \<^verbatim>\<open>s.split(c)\<close> for a one-character separator: the pieces between the occurrences of
  \<^verbatim>\<open>c\<close>; a string without \<^verbatim>\<open>c\<close> (the empty one too) gives one piece.
\<close>

fun js_split :: "char \<Rightarrow> string \<Rightarrow> string list" where
  "js_split c [] = [[]]"
| "js_split c (x # xs) =
     (if x = c then [] # js_split c xs
      else (case js_split c xs of
              [] \<Rightarrow> [[x]]
            | w # ws \<Rightarrow> (x # w) # ws))"

text \<open>\<^verbatim>\<open>arr[1]\<close>: \<^verbatim>\<open>undefined\<close> when the array has fewer than two elements.\<close>

fun at1 :: "string list \<Rightarrow> jsval" where
  "at1 (a # b # rest) = Str b"
| "at1 xs = Undefined"

text \<open>Decimal digits of a non-negative integer, as a template literal prints \<^verbatim>\<open>Date.now()\<close>.\<close>

definition digit_char :: "nat \<Rightarrow> char" where
  "digit_char d = ''0123456789'' ! d"

fun show_nat :: "nat \<Rightarrow> string" where
  "show_nat n = (if n < 10 then [digit_char n] else show_nat (n div 10) @ [digit_char (n mod 10)])"

declare show_nat.simps [simp del]


section \<open>The page: module state and the DOM elements the handlers touch\<close>

text \<open>
  One record holds the two module variables and, for each of the eleven elements fetched
  at start-up, the properties the handlers read or write. Membership of the class
  \<^verbatim>\<open>hidden\<close> in an element's class list is a boolean. The handlers are registered only in
  the \<^verbatim>\<open>else\<close> branch of the start-up check, when every element was found, and the
  element bindings are constants; so whenever a handler runs, the null guards that open
  \<^verbatim>\<open>showError\<close> and \<^verbatim>\<open>setLoading\<close> do not fire. Console output is not part of the state.
\<close>

record app =
  base64ImageData :: jsval
  mimeType :: jsval
  imageUpload_value :: string
  imagePreview_src :: string
  imagePreview_hidden :: bool
  previewPlaceholder_hidden :: bool
  styleSelect_value :: string
  generateBtn_disabled :: bool
  cameraBtn_disabled :: bool
  uploadLabel_aria_disabled :: bool
  loader_hidden :: bool
  generatedImage_src :: string
  generatedImage_hidden :: bool
  outputPlaceholder_textContent :: string
  outputPlaceholder_color :: string
  outputPlaceholder_hidden :: bool
  downloadBtn_hidden :: bool


section \<open>showError and setLoading\<close>

definition showError :: "string \<Rightarrow> app \<Rightarrow> app" where
  "showError message s =
     s\<lparr>outputPlaceholder_textContent := ''Error: '' @ message,
       outputPlaceholder_color := ''var(--error-color)'',
       outputPlaceholder_hidden := False,
       generatedImage_hidden := True,
       downloadBtn_hidden := True\<rparr>"

definition setLoading :: "bool \<Rightarrow> app \<Rightarrow> app" where
  "setLoading isLoading s =
     (let s1 = s\<lparr>generateBtn_disabled := isLoading,
                  cameraBtn_disabled := isLoading,
                  uploadLabel_aria_disabled := isLoading\<rparr>;
          s2 = s1\<lparr>downloadBtn_hidden := True\<rparr>
      in if isLoading
         then s2\<lparr>loader_hidden := False,
                 generatedImage_hidden := True,
                 outputPlaceholder_hidden := True\<rparr>
         else s2\<lparr>loader_hidden := True\<rparr>)"


section \<open>Upload handler\<close>

text \<open>
  A \<^verbatim>\<open>File\<close> is used only through its \<^verbatim>\<open>type\<close>. What the \<^verbatim>\<open>FileReader\<close> holds when
  \<^verbatim>\<open>loadend\<close> fires is a parameter: \<^verbatim>\<open>Some r\<close> for a data URL string, \<^verbatim>\<open>None\<close> when the
  read failed and \<^verbatim>\<open>reader.result\<close> is \<^verbatim>\<open>null\<close> (then the promise is rejected, by
  \<^verbatim>\<open>onerror\<close> or by the \<^verbatim>\<open>else\<close> branch of \<^verbatim>\<open>onloadend\<close>).
\<close>

record js_file =
  file_type :: string

record generative_part =
  gp_mimeType :: string
  gp_data :: jsval

datatype read_error = FailedToRead

definition fileToGenerativePart :: "js_file \<Rightarrow> string option \<Rightarrow> read_error + generative_part" where
  "fileToGenerativePart f reader_result =
     (case reader_result of
        Some r \<Rightarrow> Inr \<lparr>gp_mimeType = file_type f, gp_data = at1 (js_split CHR '','' r)\<rparr>
      | None \<Rightarrow> Inl FailedToRead)"

text \<open>
  \<^verbatim>\<open>handleImageUpload\<close> changes nothing before its \<^verbatim>\<open>await\<close>, so its whole effect happens
  when the read settles. With no file selected it returns before the \<^verbatim>\<open>try\<close>, and the
  \<^verbatim>\<open>finally\<close> block does not run.
\<close>

definition handleImageUpload :: "app \<Rightarrow> js_file option \<Rightarrow> string option \<Rightarrow> app" where
  "handleImageUpload s selected reader_result =
     (case selected of
        None \<Rightarrow> s
      | Some f \<Rightarrow>
          (case fileToGenerativePart f reader_result of
             Inr p \<Rightarrow>
               s\<lparr>base64ImageData := gp_data p,
                 mimeType := Str (gp_mimeType p),
                 imagePreview_src :=
                   ''data:'' @ gp_mimeType p @ '';base64,'' @ to_string (gp_data p),
                 imagePreview_hidden := False,
                 previewPlaceholder_hidden := True,
                 generateBtn_disabled := False,
                 imageUpload_value := []\<rparr>
           | Inl e \<Rightarrow>
               (showError ''Could not process the uploaded file.'' s)
                 \<lparr>imageUpload_value := []\<rparr>))"


section \<open>Generation controller\<close>

text \<open>
  The response of \<^verbatim>\<open>generateContent\<close>, with every property the handler reaches through
  \<^verbatim>\<open>?.\<close> optional. A part may carry text, inline data, both or neither.
\<close>

record blob =
  blob_data :: "string option"
  blob_mimeType :: "string option"

record part =
  part_text :: "string option"
  part_inlineData :: "blob option"

record content =
  parts :: "part list option"

record candidate =
  cand_content :: "content option"

record response =
  candidates :: "candidate list option"

text \<open>\<^verbatim>\<open>response.candidates?.[0]?.content?.parts || []\<close>\<close>

definition response_parts :: "response \<Rightarrow> part list" where
  "response_parts r =
     (case candidates r of
        None \<Rightarrow> []
      | Some [] \<Rightarrow> []
      | Some (c # rest) \<Rightarrow>
          (case cand_content c of
             None \<Rightarrow> []
           | Some ct \<Rightarrow> (case parts ct of None \<Rightarrow> [] | Some ps \<Rightarrow> ps)))"

text \<open>The body of the \<^verbatim>\<open>if (part.inlineData)\<close> branch.\<close>

definition render :: "blob \<Rightarrow> app \<Rightarrow> app" where
  "render b s =
     s\<lparr>generatedImage_src :=
         ''data:'' @ to_string (of_option (blob_mimeType b)) @ '';base64,''
           @ to_string (of_option (blob_data b)),
       generatedImage_hidden := False,
       outputPlaceholder_hidden := True,
       downloadBtn_hidden := False\<rparr>"

text \<open>The \<^verbatim>\<open>for\<close> loop with its \<^verbatim>\<open>break\<close>; the boolean is \<^verbatim>\<open>imageFound\<close>.\<close>

fun scan_parts :: "part list \<Rightarrow> app \<Rightarrow> app \<times> bool" where
  "scan_parts [] s = (s, False)"
| "scan_parts (p # ps) s =
     (case part_inlineData p of
        Some b \<Rightarrow> (render b s, True)
      | None \<Rightarrow> scan_parts ps s)"

record request =
  req_model :: string
  req_image_data :: jsval
  req_image_mimeType :: jsval
  req_text :: string
  req_responseModalities :: "string list"

definition build_request :: "app \<Rightarrow> request" where
  "build_request s =
     \<lparr>req_model = ''gemini-2.5-flash-image-preview'',
      req_image_data = base64ImageData s,
      req_image_mimeType = mimeType s,
      req_text = ''Transform this image into a '' @ styleSelect_value s @ '' style.'',
      req_responseModalities = [''IMAGE'', ''TEXT'']\<rparr>"

text \<open>How the awaited call settles: it throws (or rejects), or it resolves to a response.\<close>

datatype api_outcome = Rejected | Resolved response

text \<open>
  \<^verbatim>\<open>handleGenerateClick\<close> up to its \<^verbatim>\<open>await\<close>: the input check, \<^verbatim>\<open>setLoading(true)\<close> and
  the request that is sent. \<^verbatim>\<open>None\<close> means the handler returned without calling the
  service.
\<close>

definition handleGenerateClick_start :: "app \<Rightarrow> app \<times> request option" where
  "handleGenerateClick_start s =
     (if \<not> truthy (base64ImageData s) \<or> \<not> truthy (mimeType s)
      then (showError ''Please upload an image first.'' s, None)
      else (setLoading True s, Some (build_request s)))"

text \<open>The rest of the \<^verbatim>\<open>try\<close> block, the \<^verbatim>\<open>catch\<close> and the \<^verbatim>\<open>finally\<close>.\<close>

definition handleGenerateClick_resume :: "api_outcome \<Rightarrow> app \<Rightarrow> app" where
  "handleGenerateClick_resume outcome s =
     setLoading False
       (case outcome of
          Rejected \<Rightarrow>
            showError ''Failed to generate image. Please check your connection and try again.'' s
        | Resolved r \<Rightarrow>
            (case scan_parts (response_parts r) s of
               (s', imageFound) \<Rightarrow>
                 if \<not> imageFound
                 then showError ''The model did not return an image. Please try again.'' s'
                 else s'))"

text \<open>One whole generation attempt with nothing else happening while the call is pending.\<close>

definition handleGenerateClick :: "app \<Rightarrow> (request \<Rightarrow> api_outcome) \<Rightarrow> app" where
  "handleGenerateClick s api =
     (case handleGenerateClick_start s of
        (s', None) \<Rightarrow> s'
      | (s', Some rq) \<Rightarrow> handleGenerateClick_resume (api rq) s')"


section \<open>Download handler\<close>

text \<open>
  The regular expression \<^verbatim>\<open>/data:([^;]+);/\<close> tried at the start of a string: the literal
  \<^verbatim>\<open>data:\<close>, then the longest run of characters other than \<^verbatim>\<open>;\<close>, which must be
  non-empty and followed by \<^verbatim>\<open>;\<close>. Giving characters of the run back cannot help, since
  every character of the run differs from \<^verbatim>\<open>;\<close>. The result is capture group 1.
\<close>

definition match_here :: "string \<Rightarrow> string option" where
  "match_here s =
     (if startsWith s ''data:''
      then (let rest = drop 5 s;
                run = takeWhile (\<lambda>c. c \<noteq> CHR '';'') rest;
                after = dropWhile (\<lambda>c. c \<noteq> CHR '';'') rest
            in if run \<noteq> [] \<and> after \<noteq> [] then Some run else None)
      else None)"

text \<open>\<^verbatim>\<open>imageUrl.match(...)\<close> is not anchored: the leftmost position that matches wins.\<close>

fun regex_match :: "string \<Rightarrow> string option" where
  "regex_match [] = match_here []"
| "regex_match (c # cs) =
     (case match_here (c # cs) of
        Some g \<Rightarrow> Some g
      | None \<Rightarrow> regex_match cs)"

text \<open>\<^verbatim>\<open>imageUrl.match(/data:([^;]+);/)?.[1] || 'image/png'\<close>\<close>

definition url_mimeType :: "string \<Rightarrow> string" where
  "url_mimeType imageUrl =
     (case regex_match imageUrl of
        None \<Rightarrow> ''image/png''
      | Some g \<Rightarrow> if g = [] then ''image/png'' else g)"

text \<open>\<^verbatim>\<open>mimeType.split('/')[1] || 'png'\<close>\<close>

definition extension :: "string \<Rightarrow> string" where
  "extension mime =
     (let e = at1 (js_split CHR ''/'' mime)
      in if truthy e then to_string e else ''png'')"

record link =
  href :: string
  download :: string

text \<open>
  The field \<^verbatim>\<open>generatedImage_src\<close> of the page is the string last assigned to
  \<^verbatim>\<open>generatedImage.src\<close>, the element's \<^verbatim>\<open>src\<close> attribute. Reading \<^verbatim>\<open>generatedImage.src\<close>
  does not give that string back: the browser parses the attribute as a URL against the
  document's address and returns the URL serialised again (tabs and line breaks removed,
  some characters percent-encoded, a relative address made absolute). That getter is the
  parameter \<^verbatim>\<open>src_getter\<close>, from the attribute to the string read.
  \<^verbatim>\<open>now\<close> is what \<^verbatim>\<open>Date.now()\<close> returns, a count of milliseconds that a template literal
  prints in decimal; \<^verbatim>\<open>dom_throws\<close> says whether creating, attaching or clicking the link
  throws, which sends the handler to its \<^verbatim>\<open>catch\<close> block. The link that was clicked is
  returned beside the page.
\<close>

definition handleDownloadClick ::
  "(string \<Rightarrow> string) \<Rightarrow> app \<Rightarrow> nat \<Rightarrow> bool \<Rightarrow> app \<times> link option" where
  "handleDownloadClick src_getter s now dom_throws =
     (let imageUrl = src_getter (generatedImage_src s)
      in if imageUrl = [] \<or> \<not> startsWith imageUrl ''data:''
         then (showError ''No image available to download.'' s, None)
         else if dom_throws
         then (showError
                 ''Could not initiate download. Please try right-clicking the image and saving it.'' s,
               None)
         else (s, Some \<lparr>href = imageUrl,
                        download = ''stylized-image-'' @ show_nat now @ ''.''
                                     @ extension (url_mimeType imageUrl)\<rparr>))"


section \<open>The page as an event loop\<close>

text \<open>
  Handlers run one at a time; an \<^verbatim>\<open>async\<close> handler gives way at its \<^verbatim>\<open>await\<close> and goes on
  when the awaited promise settles. The world is the page together with the generation
  requests that were sent and have not settled. A click on the generate button reaches
  \<^verbatim>\<open>handleGenerateClick\<close> only when the button is not disabled: a disabled button
  dispatches no click event. Each event carries what the browser supplies to its handler:
  the outcome of the file read, the outcome of the call, and for a click on the download
  button the getter of the result image's \<^verbatim>\<open>src\<close>, the clock and whether the link can be
  clicked.
\<close>

record world =
  page :: app
  in_flight :: "request list"

datatype event =
    GenerateClicked
  | FileReadSettled "js_file option" "string option"
  | CallSettled api_outcome
  | DownloadClicked "string \<Rightarrow> string" nat bool

definition step :: "world \<Rightarrow> event \<Rightarrow> world" where
  "step w e =
     (case e of
        GenerateClicked \<Rightarrow>
          (if generateBtn_disabled (page w) then w
           else (case handleGenerateClick_start (page w) of
                   (s', None) \<Rightarrow> w\<lparr>page := s'\<rparr>
                 | (s', Some rq) \<Rightarrow> w\<lparr>page := s', in_flight := in_flight w @ [rq]\<rparr>))
      | FileReadSettled selected reader_result \<Rightarrow>
          w\<lparr>page := handleImageUpload (page w) selected reader_result\<rparr>
      | CallSettled outcome \<Rightarrow>
          (case in_flight w of
             [] \<Rightarrow> w
           | rq # rest \<Rightarrow>
               w\<lparr>page := handleGenerateClick_resume outcome (page w), in_flight := rest\<rparr>)
      | DownloadClicked src_getter now dom_throws \<Rightarrow>
          w\<lparr>page := fst (handleDownloadClick src_getter (page w) now dom_throws)\<rparr>)"

definition run :: "world \<Rightarrow> event list \<Rightarrow> world" where
  "run w es = foldl step w es"


section \<open>Asset cache worker\<close>

text \<open>
  The worker's \<^verbatim>\<open>fetch\<close> listener calls \<^verbatim>\<open>caches.match(event.request)\<close>, the lookup of
  the origin's whole cache storage: the caches are asked in the order they were created
  and the first match is the answer. A cache is a partial map from requests to responses;
  how a cache decides that a stored entry matches a request is the browser's business.
\<close>

type_synonym ('rq, 'rs) cache = "'rq \<Rightarrow> 'rs option"

type_synonym ('rq, 'rs) cache_storage = "(string \<times> ('rq, 'rs) cache) list"

definition CACHE_NAME :: string where
  "CACHE_NAME = ''image-style-transfer-v1''"

fun caches_match :: "('rq, 'rs) cache_storage \<Rightarrow> 'rq \<Rightarrow> 'rs option" where
  "caches_match [] rq = None"
| "caches_match ((name, c) # rest) rq =
     (case c rq of
        Some r \<Rightarrow> Some r
      | None \<Rightarrow> caches_match rest rq)"

text \<open>
  What one \<^verbatim>\<open>fetch\<close> event does: the response handed to \<^verbatim>\<open>respondWith\<close> (\<^verbatim>\<open>None\<close> when
  the network fetch fails), the requests sent to the network, and the cache storage
  afterwards. The network is a parameter.
\<close>

record ('rq, 'rs) fetch_result =
  responded :: "'rs option"
  network_calls :: "'rq list"
  storage_after :: "('rq, 'rs) cache_storage"

definition fetch_listener ::
  "('rq, 'rs) cache_storage \<Rightarrow> ('rq \<Rightarrow> 'rs option) \<Rightarrow> 'rq \<Rightarrow> ('rq, 'rs) fetch_result" where
  "fetch_listener caches network rq =
     (case caches_match caches rq of
        Some r \<Rightarrow> \<lparr>responded = Some r, network_calls = [], storage_after = caches\<rparr>
      | None \<Rightarrow> \<lparr>responded = network rq, network_calls = [rq], storage_after = caches\<rparr>)"

text \<open>The cache of a given name in the storage, as \<^verbatim>\<open>caches.open(name)\<close> finds it.\<close>

fun named_cache :: "('rq, 'rs) cache_storage \<Rightarrow> string \<Rightarrow> ('rq, 'rs) cache option" where
  "named_cache [] n = None"
| "named_cache ((name, c) # rest) n = (if name = n then Some c else named_cache rest n)"


section \<open>What the user sees\<close>

text \<open>
  The page shows the error \<^verbatim>\<open>message\<close>: the placeholder is visible and reads
  \<^verbatim>\<open>Error: message\<close>, and the result image and the download button are hidden.
\<close>

definition error_shown :: "string \<Rightarrow> app \<Rightarrow> bool" where
  "error_shown message s =
     (\<not> outputPlaceholder_hidden s
      \<and> outputPlaceholder_textContent s = ''Error: '' @ message
      \<and> generatedImage_hidden s
      \<and> downloadBtn_hidden s)"

text \<open>The placeholder, where errors are written, and the result image are not both visible.\<close>

definition result_or_placeholder :: "app \<Rightarrow> bool" where
  "result_or_placeholder s = (generatedImage_hidden s \<or> outputPlaceholder_hidden s)"


text \<open>
  At most one request is pending, and while one is pending the generate button is
  disabled.
\<close>

definition single_flight :: "world \<Rightarrow> bool" where
  "single_flight w =
     (length (in_flight w) \<le> 1 \<and> (in_flight w = [] \<or> generateBtn_disabled (page w)))"

text \<open>A file read that settles with a data URL for a selected file.\<close>

fun successful_read :: "event \<Rightarrow> bool" where
  "successful_read (FileReadSettled (Some f) (Some r)) = True"
| "successful_read e = False"


section \<open>Concrete inputs for the worked examples\<close>

text \<open>
  A page before any upload (nothing stored, the generate button disabled, no result), a
  PNG file with the data URL its read produces, and responses built from a list of parts.
\<close>

definition fresh_page :: app where
  "fresh_page =
     \<lparr>base64ImageData = Null,
      mimeType = Null,
      imageUpload_value = [],
      imagePreview_src = [],
      imagePreview_hidden = True,
      previewPlaceholder_hidden = False,
      styleSelect_value = ''watercolor'',
      generateBtn_disabled = True,
      cameraBtn_disabled = False,
      uploadLabel_aria_disabled = False,
      loader_hidden = True,
      generatedImage_src = [],
      generatedImage_hidden = True,
      outputPlaceholder_textContent = ''Your stylized image will appear here.'',
      outputPlaceholder_color = [],
      outputPlaceholder_hidden = False,
      downloadBtn_hidden = True\<rparr>"

definition png_file :: js_file where
  "png_file = \<lparr>file_type = ''image/png''\<rparr>"

definition png_read :: "string option" where
  "png_read = Some ''data:image/png;base64,iVBORw0KGgo=''"

definition uploaded_page :: app where
  "uploaded_page = handleImageUpload fresh_page (Some png_file) png_read"

definition inline_part :: "string \<Rightarrow> string \<Rightarrow> part" where
  "inline_part mime d =
     \<lparr>part_text = None,
      part_inlineData = Some \<lparr>blob_data = Some d, blob_mimeType = Some mime\<rparr>\<rparr>"

definition text_part :: "string \<Rightarrow> part" where
  "text_part t = \<lparr>part_text = Some t, part_inlineData = None\<rparr>"

definition response_with :: "part list \<Rightarrow> response" where
  "response_with ps = \<lparr>candidates = Some [\<lparr>cand_content = Some \<lparr>parts = Some ps\<rparr>\<rparr>]\<rparr>"


text \<open>
  An example of a getter: it drops the line feeds of the attribute, as URL parsing does,
  and keeps every other character.
\<close>

definition without_line_feeds :: "string \<Rightarrow> string" where
  "without_line_feeds u = filter (\<lambda>c. c \<noteq> CHR 0x0A) u"

text \<open>
  A cache storage holding two caches: one left behind under an earlier cache name, with an
  entry for a stylesheet that is no longer part of the manifest, and, created after it,
  the worker's own cache with an entry for the script. Requests are URLs here and
  responses are their bodies.
\<close>

definition two_caches :: "(string, string) cache_storage" where
  "two_caches =
     [(''image-style-transfer-v0'', [''/legacy.css'' \<mapsto> ''stale stylesheet'']),
      (CACHE_NAME, [''/index.js'' \<mapsto> ''script''])]"

definition online :: "string \<Rightarrow> string option" where
  "online url = Some (''fresh '' @ url)"


section \<open>Auxiliary facts\<close>

lemma js_split_no_sep: "c \<notin> set xs \<Longrightarrow> js_split c xs = [xs]"
  by (induction xs) auto

lemma js_split_at_sep: "c \<notin> set a \<Longrightarrow> js_split c (a @ c # b) = a # js_split c b"
  by (induction a) auto

lemma scan_parts_no_inline:
  "\<forall>q\<in>set ps. part_inlineData q = None \<Longrightarrow> scan_parts ps s = (s, False)"
  by (induction ps) simp_all

lemma scan_parts_first_inline:
  "\<forall>q\<in>set pre. part_inlineData q = None \<Longrightarrow> part_inlineData p = Some b \<Longrightarrow>
   scan_parts (pre @ p # post) s = (render b s, True)"
  by (induction pre) simp_all

lemma scan_parts_ignores_text:
  "scan_parts (map (\<lambda>p. p\<lparr>part_text := f p\<rparr>) ps) s = scan_parts ps s"
  by (induction ps) (simp_all split: option.splits)

lemma handleGenerateClick_passes:
  "truthy (base64ImageData s) \<Longrightarrow> truthy (mimeType s) \<Longrightarrow>
   handleGenerateClick s api = handleGenerateClick_resume (api (build_request s)) (setLoading True s)"
  by (simp add: handleGenerateClick_def handleGenerateClick_start_def)

lemma response_parts_response_with [simp]: "response_parts (response_with ps) = ps"
  by (simp add: response_parts_def response_with_def)

lemma uploaded_page_eval:
  "uploaded_page =
     \<lparr>base64ImageData = Str ''iVBORw0KGgo='', mimeType = Str ''image/png'',
      imageUpload_value = [],
      imagePreview_src = ''data:image/png;base64,iVBORw0KGgo='',
      imagePreview_hidden = False, previewPlaceholder_hidden = True,
      styleSelect_value = ''watercolor'', generateBtn_disabled = False,
      cameraBtn_disabled = False, uploadLabel_aria_disabled = False,
      loader_hidden = True, generatedImage_src = [],
      generatedImage_hidden = True,
      outputPlaceholder_textContent = ''Your stylized image will appear here.'',
      outputPlaceholder_color = [], outputPlaceholder_hidden = False,
      downloadBtn_hidden = True\<rparr>"
  by (simp add: uploaded_page_def handleImageUpload_def fileToGenerativePart_def fresh_page_def
      png_file_def png_read_def)

text \<open>
  Whatever the page and whatever the service answers, a generation attempt ends with the
  download button hidden: the missing-input path hides it in \<^verbatim>\<open>showError\<close>, every other
  path ends in \<^verbatim>\<open>setLoading(false)\<close>, which adds \<^verbatim>\<open>hidden\<close> to the button before it looks at
  its argument.
\<close>

lemma download_hidden_after_generation:
  "downloadBtn_hidden (handleGenerateClick s api)"
  by (simp add: handleGenerateClick_def handleGenerateClick_start_def handleGenerateClick_resume_def
      setLoading_def showError_def Let_def split: prod.splits option.splits)


section \<open>Generation: success, failure, missing input\<close>

text \<open>
  C1. Claimed: when the response holds an image-bearing part, the first one is rendered
  and the download button is visible once loading is cleared. On the code the first half
  holds and the second does not. For an uploaded PNG and a response of one inline PNG
  part, the result image shows the returned data URI and the loader is hidden again, but
  the download button is hidden: the loop removes \<^verbatim>\<open>hidden\<close> from it and the
  \<^verbatim>\<open>finally\<close> block's \<^verbatim>\<open>setLoading(false)\<close> adds it back.
\<close>

theorem C1_generation_success_leaves_download_hidden:
  "generatedImage_src (handleGenerateClick uploaded_page
       (\<lambda>rq. Resolved (response_with [inline_part ''image/png'' ''AAAA''])))
     = ''data:image/png;base64,AAAA''
   \<and> \<not> generatedImage_hidden (handleGenerateClick uploaded_page
       (\<lambda>rq. Resolved (response_with [inline_part ''image/png'' ''AAAA''])))
   \<and> loader_hidden (handleGenerateClick uploaded_page
       (\<lambda>rq. Resolved (response_with [inline_part ''image/png'' ''AAAA''])))
   \<and> downloadBtn_hidden (handleGenerateClick uploaded_page
       (\<lambda>rq. Resolved (response_with [inline_part ''image/png'' ''AAAA''])))"
  by (simp add: uploaded_page_eval handleGenerateClick_def handleGenerateClick_start_def
      handleGenerateClick_resume_def setLoading_def render_def inline_part_def Let_def)

text \<open>
  C2. Claimed: a call that throws and a response without an image show the user the same
  single message. They do not: for an uploaded PNG, the text shown after a rejected call
  differs from the text shown after a response holding only a text part.
\<close>

theorem C2_failure_messages_differ:
  "outputPlaceholder_textContent (handleGenerateClick uploaded_page (\<lambda>rq. Rejected))
   \<noteq> outputPlaceholder_textContent
       (handleGenerateClick uploaded_page (\<lambda>rq. Resolved (response_with [text_part ''Sorry''])))"
  by (simp add: uploaded_page_eval handleGenerateClick_def handleGenerateClick_start_def
      handleGenerateClick_resume_def setLoading_def showError_def text_part_def Let_def)

text \<open>
  C2, as amended. With an image uploaded, a call that throws and a response without an
  inline-data part both end in the same error display: the placeholder is visible, the
  result image and the download button are hidden, the loader is hidden and the generate
  button is enabled again. The two pages differ in the message only: "Failed to generate
  image. Please check your connection and try again." for the thrown call, "The model did
  not return an image. Please try again." for the response without an image.
\<close>

theorem C2_failures_share_display_not_text:
  assumes "truthy (base64ImageData s)" and "truthy (mimeType s)"
    and "\<forall>q\<in>set (response_parts r). part_inlineData q = None"
  shows "outputPlaceholder_textContent (handleGenerateClick s (\<lambda>rq. Rejected))
           = ''Error: Failed to generate image. Please check your connection and try again.''
       \<and> outputPlaceholder_textContent (handleGenerateClick s (\<lambda>rq. Resolved r))
           = ''Error: The model did not return an image. Please try again.''
       \<and> handleGenerateClick s (\<lambda>rq. Resolved r)
           = (handleGenerateClick s (\<lambda>rq. Rejected))
               \<lparr>outputPlaceholder_textContent :=
                  ''Error: The model did not return an image. Please try again.''\<rparr>
       \<and> \<not> outputPlaceholder_hidden (handleGenerateClick s (\<lambda>rq. Rejected))
       \<and> generatedImage_hidden (handleGenerateClick s (\<lambda>rq. Rejected))
       \<and> downloadBtn_hidden (handleGenerateClick s (\<lambda>rq. Rejected))
       \<and> loader_hidden (handleGenerateClick s (\<lambda>rq. Rejected))
       \<and> \<not> generateBtn_disabled (handleGenerateClick s (\<lambda>rq. Rejected))"
  using assms
  by (simp add: handleGenerateClick_passes handleGenerateClick_resume_def scan_parts_no_inline
      setLoading_def showError_def Let_def)

theorem C2_failures_share_display_not_text_witness:
  "outputPlaceholder_textContent (handleGenerateClick uploaded_page (\<lambda>rq. Rejected))
     = ''Error: Failed to generate image. Please check your connection and try again.''
   \<and> outputPlaceholder_textContent
       (handleGenerateClick uploaded_page (\<lambda>rq. Resolved (response_with [text_part ''Sorry''])))
     = ''Error: The model did not return an image. Please try again.''
   \<and> generatedImage_hidden (handleGenerateClick uploaded_page (\<lambda>rq. Rejected))"
proof -
  have h1: "truthy (base64ImageData uploaded_page)" by (simp add: uploaded_page_eval)
  have h2: "truthy (mimeType uploaded_page)" by (simp add: uploaded_page_eval)
  have h3: "\<forall>q\<in>set (response_parts (response_with [text_part ''Sorry''])). part_inlineData q = None"
    by (simp add: text_part_def)
  from C2_failures_share_display_not_text [OF h1 h2 h3] show ?thesis by simp
qed

text \<open>
  C3. When the stored image data or the stored mime type is absent (\<^verbatim>\<open>null\<close>,
  \<^verbatim>\<open>undefined\<close> or the empty string), a generation attempt shows "Please upload an image
  first." and stops there: no request is built or sent, whatever the service would have
  answered, and the loader and the generate button stay as they were, so the Loading
  state is not entered.
\<close>

theorem C3_generate_without_upload:
  assumes "\<not> truthy (base64ImageData s) \<or> \<not> truthy (mimeType s)"
  shows "handleGenerateClick_start s = (showError ''Please upload an image first.'' s, None)
       \<and> handleGenerateClick s api = showError ''Please upload an image first.'' s
       \<and> outputPlaceholder_textContent (handleGenerateClick s api)
           = ''Error: Please upload an image first.''
       \<and> \<not> outputPlaceholder_hidden (handleGenerateClick s api)
       \<and> loader_hidden (handleGenerateClick s api) = loader_hidden s
       \<and> generateBtn_disabled (handleGenerateClick s api) = generateBtn_disabled s
       \<and> in_flight (step \<lparr>page = s, in_flight = pending\<rparr> GenerateClicked) = pending"
  using assms
  by (auto simp add: handleGenerateClick_def handleGenerateClick_start_def showError_def step_def)

theorem C3_generate_without_upload_witness:
  "handleGenerateClick_start fresh_page = (showError ''Please upload an image first.'' fresh_page, None)
   \<and> outputPlaceholder_textContent (handleGenerateClick fresh_page (\<lambda>rq. Rejected))
       = ''Error: Please upload an image first.''
   \<and> loader_hidden (handleGenerateClick fresh_page (\<lambda>rq. Rejected))
   \<and> in_flight (step \<lparr>page = fresh_page, in_flight = []\<rparr> GenerateClicked) = []"
proof -
  have h: "\<not> truthy (base64ImageData fresh_page) \<or> \<not> truthy (mimeType fresh_page)"
    by (simp add: fresh_page_def)
  have l: "loader_hidden fresh_page" by (simp add: fresh_page_def)
  from C3_generate_without_upload [OF h, of "\<lambda>rq. Rejected" "[]"] l show ?thesis by blast
qed

text \<open>
  C4. With an image uploaded and a call that resolves, the parts of the response (those of
  its first candidate's content, the list the handler iterates) are scanned in order. If
  some part carries inline data, the first such part is the one rendered: the result
  image is shown with the data URI built from that part's mime type and data, and the
  placeholder is hidden with its text untouched. If no part carries inline data, the
  result image stays hidden with its source unchanged and the placeholder shows "The
  model did not return an image. Please try again.". The text of the parts plays no role
  in the scan.
\<close>

theorem C4_first_inline_part_is_rendered:
  assumes "truthy (base64ImageData s)" and "truthy (mimeType s)"
    and "api (build_request s) = Resolved r"
  shows "(response_parts r = pre @ p # post \<and> (\<forall>q\<in>set pre. part_inlineData q = None)
            \<and> part_inlineData p = Some b
          \<longrightarrow> handleGenerateClick s api = setLoading False (render b (setLoading True s))
            \<and> generatedImage_src (handleGenerateClick s api)
                = ''data:'' @ to_string (of_option (blob_mimeType b)) @ '';base64,''
                    @ to_string (of_option (blob_data b))
            \<and> \<not> generatedImage_hidden (handleGenerateClick s api)
            \<and> outputPlaceholder_hidden (handleGenerateClick s api)
            \<and> outputPlaceholder_textContent (handleGenerateClick s api)
                = outputPlaceholder_textContent s)
       \<and> ((\<forall>q\<in>set (response_parts r). part_inlineData q = None)
          \<longrightarrow> generatedImage_hidden (handleGenerateClick s api)
            \<and> generatedImage_src (handleGenerateClick s api) = generatedImage_src s
            \<and> \<not> outputPlaceholder_hidden (handleGenerateClick s api)
            \<and> outputPlaceholder_textContent (handleGenerateClick s api)
                = ''Error: The model did not return an image. Please try again.'')
       \<and> scan_parts (map (\<lambda>q. q\<lparr>part_text := t q\<rparr>) (response_parts r)) (setLoading True s)
           = scan_parts (response_parts r) (setLoading True s)"
proof -
  have run: "handleGenerateClick s api = handleGenerateClick_resume (Resolved r) (setLoading True s)"
    using assms by (simp add: handleGenerateClick_passes)
  have found: "handleGenerateClick s api = setLoading False (render b (setLoading True s))"
    if "response_parts r = pre @ p # post" "\<forall>q\<in>set pre. part_inlineData q = None"
       "part_inlineData p = Some b"
    using that by (simp add: run handleGenerateClick_resume_def scan_parts_first_inline)
  have missing: "handleGenerateClick s api
      = setLoading False (showError ''The model did not return an image. Please try again.''
          (setLoading True s))"
    if "\<forall>q\<in>set (response_parts r). part_inlineData q = None"
    using that by (simp add: run handleGenerateClick_resume_def scan_parts_no_inline)
  show ?thesis
  proof (intro conjI impI)
    assume a: "response_parts r = pre @ p # post \<and> (\<forall>q\<in>set pre. part_inlineData q = None)
            \<and> part_inlineData p = Some b"
    then have eq: "handleGenerateClick s api = setLoading False (render b (setLoading True s))"
      using found by blast
    show "handleGenerateClick s api = setLoading False (render b (setLoading True s))"
      by (rule eq)
    show "generatedImage_src (handleGenerateClick s api)
                = ''data:'' @ to_string (of_option (blob_mimeType b)) @ '';base64,''
                    @ to_string (of_option (blob_data b))"
      by (simp add: eq setLoading_def render_def Let_def)
    show "\<not> generatedImage_hidden (handleGenerateClick s api)"
      by (simp add: eq setLoading_def render_def Let_def)
    show "outputPlaceholder_hidden (handleGenerateClick s api)"
      by (simp add: eq setLoading_def render_def Let_def)
    show "outputPlaceholder_textContent (handleGenerateClick s api)
                = outputPlaceholder_textContent s"
      by (simp add: eq setLoading_def render_def Let_def)
  next
    assume a: "\<forall>q\<in>set (response_parts r). part_inlineData q = None"
    note eq = missing [OF a]
    show "generatedImage_hidden (handleGenerateClick s api)"
      by (simp add: eq setLoading_def showError_def Let_def)
    show "generatedImage_src (handleGenerateClick s api) = generatedImage_src s"
      by (simp add: eq setLoading_def showError_def Let_def)
    show "\<not> outputPlaceholder_hidden (handleGenerateClick s api)"
      by (simp add: eq setLoading_def showError_def Let_def)
    show "outputPlaceholder_textContent (handleGenerateClick s api)
                = ''Error: The model did not return an image. Please try again.''"
      by (simp add: eq setLoading_def showError_def Let_def)
  next
    show "scan_parts (map (\<lambda>q. q\<lparr>part_text := t q\<rparr>) (response_parts r)) (setLoading True s)
           = scan_parts (response_parts r) (setLoading True s)"
      by (rule scan_parts_ignores_text)
  qed
qed

theorem C4_first_inline_part_is_rendered_witness:
  "generatedImage_src (handleGenerateClick uploaded_page
       (\<lambda>rq. Resolved (response_with
          [text_part ''Here it is'', inline_part ''image/jpeg'' ''AAAA'',
           inline_part ''image/png'' ''BBBB''])))
     = ''data:image/jpeg;base64,AAAA''
   \<and> \<not> generatedImage_hidden (handleGenerateClick uploaded_page
       (\<lambda>rq. Resolved (response_with
          [text_part ''Here it is'', inline_part ''image/jpeg'' ''AAAA'',
           inline_part ''image/png'' ''BBBB''])))
   \<and> generatedImage_hidden (handleGenerateClick uploaded_page
       (\<lambda>rq. Resolved (response_with [text_part ''Sorry''])))
   \<and> outputPlaceholder_textContent (handleGenerateClick uploaded_page
       (\<lambda>rq. Resolved (response_with [text_part ''Sorry''])))
     = ''Error: The model did not return an image. Please try again.''"
proof -
  have h1: "truthy (base64ImageData uploaded_page)" by (simp add: uploaded_page_eval)
  have h2: "truthy (mimeType uploaded_page)" by (simp add: uploaded_page_eval)
  let ?r1 = "response_with [text_part ''Here it is'', inline_part ''image/jpeg'' ''AAAA'',
           inline_part ''image/png'' ''BBBB'']"
  let ?b = "\<lparr>blob_data = Some ''AAAA'', blob_mimeType = Some ''image/jpeg''\<rparr>"
  have h3: "(\<lambda>rq. Resolved ?r1) (build_request uploaded_page) = Resolved ?r1" by simp
  have d: "response_parts ?r1 = [text_part ''Here it is''] @ inline_part ''image/jpeg'' ''AAAA''
              # [inline_part ''image/png'' ''BBBB'']
           \<and> (\<forall>q\<in>set [text_part ''Here it is'']. part_inlineData q = None)
           \<and> part_inlineData (inline_part ''image/jpeg'' ''AAAA'') = Some ?b"
    by (simp add: text_part_def inline_part_def)
  let ?r2 = "response_with [text_part ''Sorry'']"
  have h4: "(\<lambda>rq. Resolved ?r2) (build_request uploaded_page) = Resolved ?r2" by simp
  have n: "\<forall>q\<in>set (response_parts ?r2). part_inlineData q = None"
    by (simp add: text_part_def)
  from C4_first_inline_part_is_rendered [OF h1 h2 h3,
      of "[text_part ''Here it is'']" "inline_part ''image/jpeg'' ''AAAA''"
         "[inline_part ''image/png'' ''BBBB'']" ?b] d
  have "generatedImage_src (handleGenerateClick uploaded_page (\<lambda>rq. Resolved ?r1))
     = ''data:'' @ to_string (of_option (blob_mimeType ?b)) @ '';base64,''
         @ to_string (of_option (blob_data ?b))
   \<and> \<not> generatedImage_hidden (handleGenerateClick uploaded_page (\<lambda>rq. Resolved ?r1))"
    by blast
  then have a: "generatedImage_src (handleGenerateClick uploaded_page (\<lambda>rq. Resolved ?r1))
     = ''data:image/jpeg;base64,AAAA''
   \<and> \<not> generatedImage_hidden (handleGenerateClick uploaded_page (\<lambda>rq. Resolved ?r1))"
    by simp
  from C4_first_inline_part_is_rendered [OF h1 h2 h4] n
  have b: "generatedImage_hidden (handleGenerateClick uploaded_page (\<lambda>rq. Resolved ?r2))
   \<and> outputPlaceholder_textContent (handleGenerateClick uploaded_page (\<lambda>rq. Resolved ?r2))
     = ''Error: The model did not return an image. Please try again.''"
    by blast
  from a b show ?thesis by blast
qed


section \<open>Upload\<close>

text \<open>
  C6. When the read of a selected file fails, the promise is rejected, the message "Could
  not process the uploaded file." is shown, and the stored image data, the stored mime
  type and the disabled state of the generate button are what they were before: a prior
  upload stays in place, and a button that was disabled stays disabled. When the read
  succeeds, the stored pair becomes the file's type and the second comma-separated piece
  of the data URL (the base64 payload of a well-formed data URL), the preview is shown
  and the generate button is enabled.
\<close>

theorem C6_upload_outcomes:
  "fileToGenerativePart f None = Inl FailedToRead
   \<and> base64ImageData (handleImageUpload s (Some f) None) = base64ImageData s
   \<and> mimeType (handleImageUpload s (Some f) None) = mimeType s
   \<and> generateBtn_disabled (handleImageUpload s (Some f) None) = generateBtn_disabled s
   \<and> outputPlaceholder_textContent (handleImageUpload s (Some f) None)
       = ''Error: Could not process the uploaded file.''
   \<and> \<not> outputPlaceholder_hidden (handleImageUpload s (Some f) None)
   \<and> base64ImageData (handleImageUpload s (Some f) (Some r)) = at1 (js_split CHR '','' r)
   \<and> mimeType (handleImageUpload s (Some f) (Some r)) = Str (file_type f)
   \<and> \<not> generateBtn_disabled (handleImageUpload s (Some f) (Some r))
   \<and> \<not> imagePreview_hidden (handleImageUpload s (Some f) (Some r))
   \<and> previewPlaceholder_hidden (handleImageUpload s (Some f) (Some r))
   \<and> (CHR '','' \<notin> set m \<and> CHR '','' \<notin> set d
        \<longrightarrow> base64ImageData
              (handleImageUpload s (Some f) (Some (''data:'' @ m @ '';base64,'' @ d)))
            = Str d)"
proof -
  have payload: "at1 (js_split CHR '','' (''data:'' @ m @ '';base64,'' @ d)) = Str d"
    if "CHR '','' \<notin> set m" "CHR '','' \<notin> set d"
  proof -
    have "CHR '','' \<notin> set (''data:'' @ m @ '';base64'')" using that by simp
    then have "js_split CHR '','' ((''data:'' @ m @ '';base64'') @ CHR '','' # d)
        = (''data:'' @ m @ '';base64'') # js_split CHR '','' d"
      by (rule js_split_at_sep)
    then show ?thesis using that by (simp add: js_split_no_sep)
  qed
  have stored: "base64ImageData (handleImageUpload s (Some f) (Some r')) = at1 (js_split CHR '','' r')"
    for r'
    by (simp add: handleImageUpload_def fileToGenerativePart_def)
  have well_formed: "CHR '','' \<notin> set m \<and> CHR '','' \<notin> set d
        \<longrightarrow> base64ImageData
              (handleImageUpload s (Some f) (Some (''data:'' @ m @ '';base64,'' @ d)))
            = Str d"
  proof
    assume "CHR '','' \<notin> set m \<and> CHR '','' \<notin> set d"
    then have "at1 (js_split CHR '','' (''data:'' @ m @ '';base64,'' @ d)) = Str d"
      using payload by blast
    then show "base64ImageData
              (handleImageUpload s (Some f) (Some (''data:'' @ m @ '';base64,'' @ d)))
            = Str d"
      by (simp only: stored)
  qed
  have rest: "fileToGenerativePart f None = Inl FailedToRead
   \<and> base64ImageData (handleImageUpload s (Some f) None) = base64ImageData s
   \<and> mimeType (handleImageUpload s (Some f) None) = mimeType s
   \<and> generateBtn_disabled (handleImageUpload s (Some f) None) = generateBtn_disabled s
   \<and> outputPlaceholder_textContent (handleImageUpload s (Some f) None)
       = ''Error: Could not process the uploaded file.''
   \<and> \<not> outputPlaceholder_hidden (handleImageUpload s (Some f) None)
   \<and> base64ImageData (handleImageUpload s (Some f) (Some r)) = at1 (js_split CHR '','' r)
   \<and> mimeType (handleImageUpload s (Some f) (Some r)) = Str (file_type f)
   \<and> \<not> generateBtn_disabled (handleImageUpload s (Some f) (Some r))
   \<and> \<not> imagePreview_hidden (handleImageUpload s (Some f) (Some r))
   \<and> previewPlaceholder_hidden (handleImageUpload s (Some f) (Some r))"
    by (simp add: handleImageUpload_def fileToGenerativePart_def showError_def)
  from rest well_formed show ?thesis by blast
qed

theorem C6_upload_outcomes_witness:
  "base64ImageData (handleImageUpload uploaded_page (Some png_file) None) = Str ''iVBORw0KGgo=''
   \<and> mimeType (handleImageUpload uploaded_page (Some png_file) None) = Str ''image/png''
   \<and> generateBtn_disabled (handleImageUpload fresh_page (Some png_file) None)
   \<and> base64ImageData
        (handleImageUpload fresh_page (Some png_file)
           (Some (''data:'' @ ''image/png'' @ '';base64,'' @ ''iVBORw0KGgo='')))
      = Str ''iVBORw0KGgo=''
   \<and> \<not> generateBtn_disabled
        (handleImageUpload fresh_page (Some png_file)
           (Some (''data:'' @ ''image/png'' @ '';base64,'' @ ''iVBORw0KGgo='')))"
proof -
  have c: "CHR '','' \<notin> set ''image/png'' \<and> CHR '','' \<notin> set ''iVBORw0KGgo=''" by simp
  have u: "base64ImageData uploaded_page = Str ''iVBORw0KGgo=''
           \<and> mimeType uploaded_page = Str ''image/png''"
    by (simp add: uploaded_page_eval)
  have g: "generateBtn_disabled fresh_page" by (simp add: fresh_page_def)
  from C6_upload_outcomes [of png_file uploaded_page] u
  have a: "base64ImageData (handleImageUpload uploaded_page (Some png_file) None) = Str ''iVBORw0KGgo=''
   \<and> mimeType (handleImageUpload uploaded_page (Some png_file) None) = Str ''image/png''"
    by metis
  from C6_upload_outcomes [of png_file fresh_page _ "''image/png''" "''iVBORw0KGgo=''"] c g
  have b: "generateBtn_disabled (handleImageUpload fresh_page (Some png_file) None)
   \<and> base64ImageData
        (handleImageUpload fresh_page (Some png_file)
           (Some (''data:'' @ ''image/png'' @ '';base64,'' @ ''iVBORw0KGgo='')))
      = Str ''iVBORw0KGgo=''"
    by blast
  from C6_upload_outcomes [of png_file fresh_page
      "''data:'' @ ''image/png'' @ '';base64,'' @ ''iVBORw0KGgo=''"]
  have d: "\<not> generateBtn_disabled
        (handleImageUpload fresh_page (Some png_file)
           (Some (''data:'' @ ''image/png'' @ '';base64,'' @ ''iVBORw0KGgo='')))"
    by blast
  from a b d show ?thesis by blast
qed


text \<open>
  C10. A file whose reported type is the empty string uploads successfully: the image data
  is stored, the preview is shown and the generate button is enabled. The stored mime type
  is the empty string, which the input check of the generate handler treats as absent: a
  click on the enabled button then shows "Please upload an image first.", and no request
  is sent.
\<close>

theorem C10_empty_type_upload_then_generate:
  assumes "file_type f = []"
  shows "\<not> generateBtn_disabled (handleImageUpload s (Some f) (Some r))
       \<and> base64ImageData (handleImageUpload s (Some f) (Some r)) = at1 (js_split CHR '','' r)
       \<and> mimeType (handleImageUpload s (Some f) (Some r)) = Str []
       \<and> \<not> imagePreview_hidden (handleImageUpload s (Some f) (Some r))
       \<and> handleGenerateClick_start (handleImageUpload s (Some f) (Some r))
           = (showError ''Please upload an image first.'' (handleImageUpload s (Some f) (Some r)),
              None)
       \<and> outputPlaceholder_textContent
             (handleGenerateClick (handleImageUpload s (Some f) (Some r)) api)
           = ''Error: Please upload an image first.''
       \<and> page (run \<lparr>page = s, in_flight = []\<rparr> [FileReadSettled (Some f) (Some r), GenerateClicked])
           = showError ''Please upload an image first.'' (handleImageUpload s (Some f) (Some r))
       \<and> in_flight (run \<lparr>page = s, in_flight = []\<rparr>
             [FileReadSettled (Some f) (Some r), GenerateClicked]) = []"
proof -
  let ?u = "handleImageUpload s (Some f) (Some r)"
  have m: "mimeType ?u = Str []"
    using assms by (simp add: handleImageUpload_def fileToGenerativePart_def)
  have e: "\<not> generateBtn_disabled ?u"
    by (simp add: handleImageUpload_def fileToGenerativePart_def)
  have st: "handleGenerateClick_start ?u = (showError ''Please upload an image first.'' ?u, None)"
    by (simp add: handleGenerateClick_start_def m)
  have up: "base64ImageData ?u = at1 (js_split CHR '','' r) \<and> \<not> imagePreview_hidden ?u"
    by (simp add: handleImageUpload_def fileToGenerativePart_def)
  have msg: "outputPlaceholder_textContent (handleGenerateClick ?u api)
      = ''Error: Please upload an image first.''"
    by (simp add: handleGenerateClick_def st showError_def)
  have w: "run \<lparr>page = s, in_flight = []\<rparr> [FileReadSettled (Some f) (Some r), GenerateClicked]
      = \<lparr>page = showError ''Please upload an image first.'' ?u, in_flight = []\<rparr>"
    by (simp add: run_def step_def e st)
  from m e st up msg w show ?thesis by simp
qed

theorem C10_empty_type_upload_then_generate_witness:
  "\<not> generateBtn_disabled
       (handleImageUpload fresh_page (Some \<lparr>file_type = []\<rparr>)
          (Some ''data:application/octet-stream;base64,AAAA''))
   \<and> base64ImageData
       (handleImageUpload fresh_page (Some \<lparr>file_type = []\<rparr>)
          (Some ''data:application/octet-stream;base64,AAAA'')) = Str ''AAAA''
   \<and> outputPlaceholder_textContent
       (handleGenerateClick
          (handleImageUpload fresh_page (Some \<lparr>file_type = []\<rparr>)
             (Some ''data:application/octet-stream;base64,AAAA''))
          (\<lambda>rq. Resolved (response_with [inline_part ''image/png'' ''BBBB''])))
     = ''Error: Please upload an image first.''
   \<and> in_flight (run \<lparr>page = fresh_page, in_flight = []\<rparr>
        [FileReadSettled (Some \<lparr>file_type = []\<rparr>)
           (Some ''data:application/octet-stream;base64,AAAA''), GenerateClicked]) = []"
proof -
  have h: "file_type \<lparr>file_type = []\<rparr> = []" by simp
  have d: "at1 (js_split CHR '','' ''data:application/octet-stream;base64,AAAA'') = Str ''AAAA''"
    by simp
  from C10_empty_type_upload_then_generate [OF h, of fresh_page
      "''data:application/octet-stream;base64,AAAA''"
      "\<lambda>rq. Resolved (response_with [inline_part ''image/png'' ''BBBB''])"] d
  show ?thesis by metis
qed


section \<open>Error display\<close>

lemma error_shown_showError: "error_shown m (showError m s)"
  by (simp add: error_shown_def showError_def)

lemma error_shown_setLoading_False: "error_shown m s \<Longrightarrow> error_shown m (setLoading False s)"
  by (simp add: error_shown_def setLoading_def Let_def)

lemma result_or_placeholder_showError: "result_or_placeholder (showError m s)"
  by (simp add: result_or_placeholder_def showError_def)

lemma result_or_placeholder_setLoading:
  "result_or_placeholder s \<or> b \<Longrightarrow> result_or_placeholder (setLoading b s)"
  by (auto simp add: result_or_placeholder_def setLoading_def Let_def)

lemma result_or_placeholder_scan_parts:
  "result_or_placeholder s \<Longrightarrow> result_or_placeholder (fst (scan_parts ps s))"
  by (induction ps) (simp_all add: result_or_placeholder_def render_def split: option.splits)

lemma result_or_placeholder_resume:
  "result_or_placeholder s \<Longrightarrow> result_or_placeholder (handleGenerateClick_resume outcome s)"
proof (cases outcome)
  case Rejected
  then show ?thesis
    by (simp add: handleGenerateClick_resume_def result_or_placeholder_setLoading
        result_or_placeholder_showError)
next
  case (Resolved r)
  assume a: "result_or_placeholder s"
  obtain s' found where sp: "scan_parts (response_parts r) s = (s', found)"
    by (cases "scan_parts (response_parts r) s")
  from result_or_placeholder_scan_parts [OF a, of "response_parts r"] sp
  have "result_or_placeholder s'" by simp
  then show ?thesis
    using Resolved sp
    by (simp add: handleGenerateClick_resume_def result_or_placeholder_setLoading
        result_or_placeholder_showError)
qed

lemma result_or_placeholder_start:
  "result_or_placeholder s \<Longrightarrow> result_or_placeholder (fst (handleGenerateClick_start s))"
  by (simp add: handleGenerateClick_start_def result_or_placeholder_setLoading
      result_or_placeholder_showError)

lemma result_or_placeholder_upload:
  "result_or_placeholder s \<Longrightarrow> result_or_placeholder (handleImageUpload s sel res)"
  by (auto simp add: handleImageUpload_def fileToGenerativePart_def result_or_placeholder_def
      showError_def split: option.splits)

lemma result_or_placeholder_download:
  "result_or_placeholder s \<Longrightarrow> result_or_placeholder (fst (handleDownloadClick get s now thr))"
  by (simp add: handleDownloadClick_def Let_def result_or_placeholder_showError)

lemma result_or_placeholder_step:
  "result_or_placeholder (page w) \<Longrightarrow> result_or_placeholder (page (step w e))"
proof (cases e)
  case GenerateClicked
  assume a: "result_or_placeholder (page w)"
  from result_or_placeholder_start [OF a] GenerateClicked a show ?thesis
    by (cases "handleGenerateClick_start (page w)") (auto simp add: step_def split: option.splits)
next
  case (FileReadSettled sel res)
  then show "result_or_placeholder (page w) \<Longrightarrow> ?thesis"
    by (simp add: step_def result_or_placeholder_upload)
next
  case (CallSettled outcome)
  then show "result_or_placeholder (page w) \<Longrightarrow> ?thesis"
    by (simp add: step_def result_or_placeholder_resume split: list.splits)
next
  case (DownloadClicked get now thr)
  then show "result_or_placeholder (page w) \<Longrightarrow> ?thesis"
    by (simp add: step_def result_or_placeholder_download)
qed

lemma result_or_placeholder_run:
  "result_or_placeholder (page w) \<Longrightarrow> result_or_placeholder (page (run w es))"
  unfolding run_def
  by (induction es arbitrary: w) (simp_all add: result_or_placeholder_step)

text \<open>
  C9. Every path that surfaces an error ends with that error shown: the placeholder is
  visible and reads "Error: " followed by the message, and the result image and the
  download button are hidden. This holds for \<^verbatim>\<open>showError\<close> itself and at the end of each
  handler that calls it: the failed file read, the generation attempt without an upload,
  the call that throws, the response without an image, the download for which the
  address read from the result image is empty or does not start with \<^verbatim>\<open>data:\<close>, and the
  download whose link cannot be clicked. Errors are written into the placeholder
  only, and on a page where the placeholder and the result image are not both visible
  they are not both visible after any sequence of events either, so an error and a
  rendered result are not on screen together.
\<close>

theorem C9_error_display_hides_result:
  "error_shown m (showError m s)
   \<and> error_shown ''Could not process the uploaded file.'' (handleImageUpload s1 (Some f) None)
   \<and> (\<not> truthy (base64ImageData s2) \<or> \<not> truthy (mimeType s2)
        \<longrightarrow> error_shown ''Please upload an image first.'' (handleGenerateClick s2 api2))
   \<and> (truthy (base64ImageData s3) \<and> truthy (mimeType s3) \<and> api3 (build_request s3) = Rejected
        \<longrightarrow> error_shown
              ''Failed to generate image. Please check your connection and try again.''
              (handleGenerateClick s3 api3))
   \<and> (truthy (base64ImageData s4) \<and> truthy (mimeType s4) \<and> api4 (build_request s4) = Resolved r
          \<and> (\<forall>q\<in>set (response_parts r). part_inlineData q = None)
        \<longrightarrow> error_shown ''The model did not return an image. Please try again.''
              (handleGenerateClick s4 api4))
   \<and> (get5 (generatedImage_src s5) = [] \<or> \<not> startsWith (get5 (generatedImage_src s5)) ''data:''
        \<longrightarrow> error_shown ''No image available to download.''
              (fst (handleDownloadClick get5 s5 now thr)))
   \<and> (get6 (generatedImage_src s6) \<noteq> [] \<and> startsWith (get6 (generatedImage_src s6)) ''data:''
        \<longrightarrow> error_shown
              ''Could not initiate download. Please try right-clicking the image and saving it.''
              (fst (handleDownloadClick get6 s6 now True)))
   \<and> (result_or_placeholder (page w) \<longrightarrow> result_or_placeholder (page (run w es)))"
proof (intro conjI impI)
  show "error_shown m (showError m s)" by (rule error_shown_showError)
  show "error_shown ''Could not process the uploaded file.'' (handleImageUpload s1 (Some f) None)"
    by (simp add: handleImageUpload_def fileToGenerativePart_def error_shown_def showError_def)
next
  assume "\<not> truthy (base64ImageData s2) \<or> \<not> truthy (mimeType s2)"
  then have "handleGenerateClick s2 api2 = showError ''Please upload an image first.'' s2"
    by (auto simp add: handleGenerateClick_def handleGenerateClick_start_def)
  then show "error_shown ''Please upload an image first.'' (handleGenerateClick s2 api2)"
    by (simp add: error_shown_showError)
next
  assume "truthy (base64ImageData s3) \<and> truthy (mimeType s3) \<and> api3 (build_request s3) = Rejected"
  then show "error_shown
              ''Failed to generate image. Please check your connection and try again.''
              (handleGenerateClick s3 api3)"
    by (simp add: handleGenerateClick_passes handleGenerateClick_resume_def
        error_shown_setLoading_False error_shown_showError)
next
  assume "truthy (base64ImageData s4) \<and> truthy (mimeType s4) \<and> api4 (build_request s4) = Resolved r
          \<and> (\<forall>q\<in>set (response_parts r). part_inlineData q = None)"
  then show "error_shown ''The model did not return an image. Please try again.''
              (handleGenerateClick s4 api4)"
    by (simp add: handleGenerateClick_passes handleGenerateClick_resume_def scan_parts_no_inline
        error_shown_setLoading_False error_shown_showError)
next
  assume "get5 (generatedImage_src s5) = [] \<or> \<not> startsWith (get5 (generatedImage_src s5)) ''data:''"
  then show "error_shown ''No image available to download.''
              (fst (handleDownloadClick get5 s5 now thr))"
    by (auto simp add: handleDownloadClick_def Let_def error_shown_showError)
next
  assume "get6 (generatedImage_src s6) \<noteq> [] \<and> startsWith (get6 (generatedImage_src s6)) ''data:''"
  then show "error_shown
              ''Could not initiate download. Please try right-clicking the image and saving it.''
              (fst (handleDownloadClick get6 s6 now True))"
    by (simp add: handleDownloadClick_def Let_def error_shown_showError)
next
  assume "result_or_placeholder (page w)"
  then show "result_or_placeholder (page (run w es))" by (rule result_or_placeholder_run)
qed

theorem C9_error_display_hides_result_witness:
  "error_shown ''Please upload an image first.''
     (handleGenerateClick fresh_page (\<lambda>rq. Rejected))
   \<and> error_shown ''Failed to generate image. Please check your connection and try again.''
     (handleGenerateClick uploaded_page (\<lambda>rq. Rejected))
   \<and> error_shown ''The model did not return an image. Please try again.''
     (handleGenerateClick uploaded_page (\<lambda>rq. Resolved (response_with [text_part ''Sorry''])))
   \<and> error_shown ''No image available to download.''
     (fst (handleDownloadClick (\<lambda>u. u) fresh_page 1730566800123 False))
   \<and> error_shown
        ''Could not initiate download. Please try right-clicking the image and saving it.''
     (fst (handleDownloadClick (\<lambda>u. u)
        (uploaded_page\<lparr>generatedImage_src := ''data:image/png;base64,AAAA'',
                        generatedImage_hidden := False,
                        outputPlaceholder_hidden := True\<rparr>) 1730566800123 True))
   \<and> result_or_placeholder (page (run \<lparr>page = fresh_page, in_flight = []\<rparr>
        [FileReadSettled (Some png_file) png_read, GenerateClicked,
         CallSettled (Resolved (response_with [inline_part ''image/png'' ''AAAA''])),
         DownloadClicked (\<lambda>u. u) 1730566800123 True]))"
proof -
  let ?s6 = "uploaded_page\<lparr>generatedImage_src := ''data:image/png;base64,AAAA'',
                        generatedImage_hidden := False,
                        outputPlaceholder_hidden := True\<rparr>"
  let ?r = "response_with [text_part ''Sorry'']"
  have h2: "\<not> truthy (base64ImageData fresh_page) \<or> \<not> truthy (mimeType fresh_page)"
    by (simp add: fresh_page_def)
  have h3: "truthy (base64ImageData uploaded_page) \<and> truthy (mimeType uploaded_page)
            \<and> (\<lambda>rq. Rejected) (build_request uploaded_page) = Rejected"
    by (simp add: uploaded_page_eval)
  have h4: "truthy (base64ImageData uploaded_page) \<and> truthy (mimeType uploaded_page)
            \<and> (\<lambda>rq. Resolved ?r) (build_request uploaded_page) = Resolved ?r
            \<and> (\<forall>q\<in>set (response_parts ?r). part_inlineData q = None)"
    by (simp add: uploaded_page_eval text_part_def)
  have h5: "(\<lambda>u. u) (generatedImage_src fresh_page) = []
            \<or> \<not> startsWith ((\<lambda>u. u) (generatedImage_src fresh_page)) ''data:''"
    by (simp add: fresh_page_def)
  have h6: "(\<lambda>u. u) (generatedImage_src ?s6) \<noteq> []
            \<and> startsWith ((\<lambda>u. u) (generatedImage_src ?s6)) ''data:''"
    by (simp add: startsWith_def)
  have h7: "result_or_placeholder (page \<lparr>page = fresh_page, in_flight = []\<rparr>)"
    by (simp add: result_or_placeholder_def fresh_page_def)
  from C9_error_display_hides_result
    [where ?s2.0 = fresh_page and ?api2.0 = "\<lambda>rq. Rejected"
       and ?s3.0 = uploaded_page and ?api3.0 = "\<lambda>rq. Rejected"
       and ?s4.0 = uploaded_page and ?api4.0 = "\<lambda>rq. Resolved ?r" and r = ?r
       and ?get5.0 = "\<lambda>u. u" and ?s5.0 = fresh_page and now = 1730566800123 and thr = False
       and ?get6.0 = "\<lambda>u. u" and ?s6.0 = ?s6
       and w = "\<lparr>page = fresh_page, in_flight = []\<rparr>"
       and es = "[FileReadSettled (Some png_file) png_read, GenerateClicked,
          CallSettled (Resolved (response_with [inline_part ''image/png'' ''AAAA''])),
          DownloadClicked (\<lambda>u. u) 1730566800123 True]"]
    h2 h3 h4 h5 h6 h7
  show ?thesis by blast
qed


section \<open>Requests in flight\<close>

text \<open>
  Sending a request puts the page into the loading state: the generate button is disabled
  and the loader is visible. A click on the disabled button changes nothing. As long as no
  file read succeeds, at most one request is pending.
\<close>

lemma start_disables_trigger:
  "handleGenerateClick_start s = (s', Some rq) \<Longrightarrow> generateBtn_disabled s' \<and> \<not> loader_hidden s'"
  by (auto simp add: handleGenerateClick_start_def setLoading_def Let_def split: if_splits)

lemma click_on_disabled_trigger:
  "generateBtn_disabled (page w) \<Longrightarrow> step w GenerateClicked = w"
  by (simp add: step_def)

lemma single_flight_step:
  assumes "single_flight w" and "\<not> successful_read e"
  shows "single_flight (step w e)"
proof (cases e)
  case GenerateClicked
  show ?thesis
  proof (cases "generateBtn_disabled (page w)")
    case True
    with GenerateClicked assms show ?thesis by (simp add: step_def)
  next
    case False
    with assms have empty: "in_flight w = []" by (simp add: single_flight_def)
    obtain s' q where st: "handleGenerateClick_start (page w) = (s', q)"
      by (cases "handleGenerateClick_start (page w)")
    show ?thesis
    proof (cases q)
      case None
      with GenerateClicked False st empty show ?thesis
        by (simp add: step_def single_flight_def)
    next
      case (Some rq)
      with st have "generateBtn_disabled s'" using start_disables_trigger by blast
      with GenerateClicked False st Some empty show ?thesis
        by (simp add: step_def single_flight_def)
    qed
  qed
next
  case (FileReadSettled sel res)
  with assms have "sel = None \<or> res = None"
    by (cases sel; cases res) simp_all
  then have "generateBtn_disabled (handleImageUpload (page w) sel res) = generateBtn_disabled (page w)"
    by (auto simp add: handleImageUpload_def fileToGenerativePart_def showError_def
        split: option.splits)
  with FileReadSettled assms show ?thesis
    by (simp add: step_def single_flight_def)
next
  case (CallSettled outcome)
  with assms show ?thesis
    by (cases "in_flight w") (simp_all add: step_def single_flight_def)
next
  case (DownloadClicked get now thr)
  have "generateBtn_disabled (fst (handleDownloadClick get (page w) now thr))
      = generateBtn_disabled (page w)"
    by (simp add: handleDownloadClick_def Let_def showError_def)
  with DownloadClicked assms show ?thesis
    by (simp add: step_def single_flight_def)
qed

lemma single_flight_run:
  "single_flight w \<Longrightarrow> \<forall>e\<in>set es. \<not> successful_read e \<Longrightarrow> single_flight (run w es)"
  unfolding run_def
  by (induction es arbitrary: w) (simp_all add: single_flight_step)

text \<open>
  C5. Claimed: while a request is in flight the generate button is disabled, so at most
  one request is in flight at any time. The button is disabled when the request is sent,
  and a click on it then does nothing; but a file read that settles while the request is
  pending runs the success path of \<^verbatim>\<open>handleImageUpload\<close>, which enables the button again.
  Upload, click, upload, click: after the first click one request is pending, the button
  is disabled and a further click changes nothing; after the second upload the loader is
  still visible and the button is enabled; after the second click two requests are
  pending.
\<close>

theorem C5_upload_while_loading_allows_second_request:
  "generateBtn_disabled (page (run \<lparr>page = fresh_page, in_flight = []\<rparr>
      [FileReadSettled (Some png_file) png_read, GenerateClicked]))
   \<and> length (in_flight (run \<lparr>page = fresh_page, in_flight = []\<rparr>
      [FileReadSettled (Some png_file) png_read, GenerateClicked])) = 1
   \<and> run \<lparr>page = fresh_page, in_flight = []\<rparr>
        [FileReadSettled (Some png_file) png_read, GenerateClicked, GenerateClicked]
      = run \<lparr>page = fresh_page, in_flight = []\<rparr>
        [FileReadSettled (Some png_file) png_read, GenerateClicked]
   \<and> \<not> loader_hidden (page (run \<lparr>page = fresh_page, in_flight = []\<rparr>
      [FileReadSettled (Some png_file) png_read, GenerateClicked,
       FileReadSettled (Some png_file) png_read]))
   \<and> \<not> generateBtn_disabled (page (run \<lparr>page = fresh_page, in_flight = []\<rparr>
      [FileReadSettled (Some png_file) png_read, GenerateClicked,
       FileReadSettled (Some png_file) png_read]))
   \<and> length (in_flight (run \<lparr>page = fresh_page, in_flight = []\<rparr>
      [FileReadSettled (Some png_file) png_read, GenerateClicked,
       FileReadSettled (Some png_file) png_read, GenerateClicked])) = 2"
  by (simp add: run_def step_def handleImageUpload_def fileToGenerativePart_def
      handleGenerateClick_start_def setLoading_def Let_def fresh_page_def png_file_def png_read_def)


section \<open>Download\<close>

lemma startsWith_iff: "startsWith s p \<longleftrightarrow> (\<exists>t. s = p @ t)"
  unfolding startsWith_def by (metis append_eq_conv_conj append_take_drop_id)

lemma takeWhile_upto_sep: "c \<notin> set m \<Longrightarrow> takeWhile (\<lambda>x. x \<noteq> c) (m @ c # rest) = m"
  by (induction m) auto

lemma dropWhile_upto_sep: "c \<notin> set m \<Longrightarrow> dropWhile (\<lambda>x. x \<noteq> c) (m @ c # rest) = c # rest"
  by (induction m) auto

lemma match_here_data_uri:
  assumes "m \<noteq> []" and "CHR '';'' \<notin> set m"
  shows "match_here (''data:'' @ m @ CHR '';'' # rest) = Some m"
proof -
  have s: "startsWith (''data:'' @ m @ CHR '';'' # rest) ''data:''"
    unfolding startsWith_iff by blast
  have d: "drop 5 (''data:'' @ m @ CHR '';'' # rest) = m @ CHR '';'' # rest" by simp
  have t: "takeWhile (\<lambda>c. c \<noteq> CHR '';'') (m @ CHR '';'' # rest) = m"
    using assms(2) by (rule takeWhile_upto_sep)
  have w: "dropWhile (\<lambda>c. c \<noteq> CHR '';'') (m @ CHR '';'' # rest) = CHR '';'' # rest"
    using assms(2) by (rule dropWhile_upto_sep)
  show ?thesis
    unfolding match_here_def Let_def d t w
    using assms(1) s by simp
qed

lemma regex_match_data_uri:
  assumes "m \<noteq> []" and "CHR '';'' \<notin> set m"
  shows "regex_match (''data:'' @ m @ CHR '';'' # rest) = Some m"
proof -
  have "regex_match (CHR ''d'' # (''ata:'' @ m @ CHR '';'' # rest))
      = (case match_here (CHR ''d'' # (''ata:'' @ m @ CHR '';'' # rest)) of
           Some g \<Rightarrow> Some g
         | None \<Rightarrow> regex_match (''ata:'' @ m @ CHR '';'' # rest))"
    by (rule regex_match.simps)
  moreover have "match_here (CHR ''d'' # (''ata:'' @ m @ CHR '';'' # rest)) = Some m"
    using match_here_data_uri [OF assms, of rest] by simp
  ultimately show ?thesis by simp
qed

lemma url_mimeType_data_uri:
  assumes "m \<noteq> []" and "CHR '';'' \<notin> set m"
  shows "url_mimeType (''data:'' @ m @ CHR '';'' # rest) = m"
proof -
  have "url_mimeType (''data:'' @ m @ CHR '';'' # rest)
      = (case Some m of None \<Rightarrow> ''image/png'' | Some g \<Rightarrow> if g = [] then ''image/png'' else g)"
    unfolding url_mimeType_def by (simp only: regex_match_data_uri [OF assms])
  then show ?thesis using assms by simp
qed

lemma match_here_needs_colon: "CHR '':'' \<notin> set u \<Longrightarrow> match_here u = None"
proof -
  assume a: "CHR '':'' \<notin> set u"
  have "\<not> startsWith u ''data:''"
  proof
    assume "startsWith u ''data:''"
    then obtain t where "u = ''data:'' @ t" unfolding startsWith_iff by blast
    then have "CHR '':'' \<in> set u" by simp
    with a show False by simp
  qed
  then show ?thesis by (simp add: match_here_def)
qed

lemma regex_match_needs_colon: "CHR '':'' \<notin> set u \<Longrightarrow> regex_match u = None"
  by (induction u) (simp_all add: match_here_needs_colon)

lemma regex_match_empty_mime:
  assumes "CHR '':'' \<notin> set d"
  shows "regex_match (''data:;base64,'' @ d) = None"
proof -
  have "match_here (''data:;base64,'' @ d) = None"
    by (simp add: match_here_def)
  moreover have "regex_match (''ata:;base64,'' @ d) = None"
    using assms by (simp add: match_here_def startsWith_def regex_match_needs_colon)
  ultimately show ?thesis by simp
qed

lemma extension_subtype:
  assumes "sub \<noteq> []" and "CHR ''/'' \<notin> set ty" and "CHR ''/'' \<notin> set sub"
  shows "extension (ty @ CHR ''/'' # sub) = sub"
  using assms by (simp add: extension_def js_split_at_sep js_split_no_sep)

lemma extension_no_slash: "CHR ''/'' \<notin> set m \<Longrightarrow> extension m = ''png''"
  by (simp add: extension_def js_split_no_sep)

lemma extension_default: "extension ''image/png'' = ''png''"
  by (simp add: extension_def)

lemma extension_empty_subtype: "CHR ''/'' \<notin> set ty \<Longrightarrow> extension (ty @ ''/'') = ''png''"
  using js_split_at_sep [of "CHR ''/''" ty "[]"] by (simp add: extension_def)

lemma js_split_head: "\<exists>ws. js_split c xs = takeWhile (\<lambda>x. x \<noteq> c) xs # ws"
proof (induction xs)
  case Nil
  show ?case by simp
next
  case (Cons x xs)
  then obtain ws where "js_split c xs = takeWhile (\<lambda>x. x \<noteq> c) xs # ws" by blast
  then show ?case by simp
qed

lemma extension_second_piece:
  assumes "CHR ''/'' \<notin> set ty"
  shows "extension (ty @ CHR ''/'' # tail)
       = (if takeWhile (\<lambda>c. c \<noteq> CHR ''/'') tail = [] then ''png''
          else takeWhile (\<lambda>c. c \<noteq> CHR ''/'') tail)"
proof -
  obtain ws where "js_split CHR ''/'' tail = takeWhile (\<lambda>c. c \<noteq> CHR ''/'') tail # ws"
    using js_split_head by blast
  then have "js_split CHR ''/'' (ty @ CHR ''/'' # tail)
      = ty # takeWhile (\<lambda>c. c \<noteq> CHR ''/'') tail # ws"
    using assms by (simp add: js_split_at_sep)
  then show ?thesis by (simp add: extension_def)
qed

lemma match_here_needs_semicolon: "CHR '';'' \<notin> set u \<Longrightarrow> match_here u = None"
proof -
  assume a: "CHR '';'' \<notin> set u"
  have "CHR '';'' \<notin> set (drop 5 u)" using a by (meson in_set_dropD)
  then show ?thesis by (auto simp add: match_here_def Let_def)
qed

lemma regex_match_needs_semicolon: "CHR '';'' \<notin> set u \<Longrightarrow> regex_match u = None"
  by (induction u) (simp_all add: match_here_needs_semicolon)

lemma regex_match_skips_front:
  assumes "match_here (''data:'' @ body) = None"
  shows "regex_match (''data:'' @ body) = regex_match body"
proof -
  have "regex_match (''data:'' @ body) = regex_match (''ata:'' @ body)"
    using assms by simp
  also have "\<dots> = regex_match body"
    by (simp add: match_here_def startsWith_def)
  finally show ?thesis .
qed

lemma regex_match_empty_front: "regex_match (''data:;'' @ rest) = regex_match rest"
proof -
  have "match_here (''data:'' @ CHR '';'' # rest) = None"
    by (simp add: match_here_def)
  then have "regex_match (''data:'' @ CHR '';'' # rest) = regex_match (CHR '';'' # rest)"
    by (rule regex_match_skips_front)
  also have "\<dots> = regex_match rest"
    by (simp add: match_here_def startsWith_def)
  finally show ?thesis by simp
qed

text \<open>
  C7. Claimed: the extension of the download's file name is the MIME subtype found in the
  data URI, and \<^verbatim>\<open>png\<close> whenever the MIME type is absent or malformed. The second half
  fails. A rendered part whose mime type is the malformed \<^verbatim>\<open>a/b/c\<close> is saved with the
  extension \<^verbatim>\<open>b\<close>, one whose mime type is \<^verbatim>\<open>/gif\<close>, with an empty type, with the extension
  \<^verbatim>\<open>gif\<close>, and one whose mime type is the empty string and whose data is
  \<^verbatim>\<open>data:image/gif;AAAA\<close> with the extension \<^verbatim>\<open>gif\<close>, found by the unanchored pattern
  further right. The three addresses are read back from the image as they were assigned.
\<close>

theorem C7_png_is_not_the_default_for_every_malformed_type:
  "map_option download (snd (handleDownloadClick (\<lambda>u. u)
       (render \<lparr>blob_data = Some ''AAAA'', blob_mimeType = Some ''a/b/c''\<rparr> uploaded_page)
       1730566800123 False))
     = Some ''stylized-image-1730566800123.b''
   \<and> map_option download (snd (handleDownloadClick (\<lambda>u. u)
       (render \<lparr>blob_data = Some ''AAAA'', blob_mimeType = Some ''/gif''\<rparr> uploaded_page)
       1730566800123 False))
     = Some ''stylized-image-1730566800123.gif''
   \<and> map_option download (snd (handleDownloadClick (\<lambda>u. u)
       (render \<lparr>blob_data = Some ''data:image/gif;AAAA'', blob_mimeType = Some []\<rparr> uploaded_page)
       1730566800123 False))
     = Some ''stylized-image-1730566800123.gif''"
  by (simp add: handleDownloadClick_def render_def startsWith_def url_mimeType_def match_here_def
      extension_def show_nat.simps digit_char_def Let_def)

text \<open>
  C7, as amended. When the address read from the result image starts with \<^verbatim>\<open>data:\<close> and
  the link can be clicked, the page is left as it is and the link saves that address
  under the name \<^verbatim>\<open>stylized-image-<Date.now()>.<ext>\<close>. The extension comes from the
  address read, by the handler's pattern and split:
  \<^item> when a non-empty text without \<^verbatim>\<open>;\<close> stands between the leading \<^verbatim>\<open>data:\<close> and a \<^verbatim>\<open>;\<close>,
    that text is the mime type;
  \<^item> for a mime type \<^verbatim>\<open>type/subtype\<close> with a non-empty subtype and no further slash the
    extension is the subtype, so an address that starts with \<^verbatim>\<open>data:image/jpeg;\<close> is saved
    as \<^verbatim>\<open>stylized-image-<Date.now()>.jpeg\<close>;
  \<^item> in general the extension is the text between the first and the second slash of the
    mime type (up to its end when there is one slash only), and \<^verbatim>\<open>png\<close> when that text is
    empty;
  \<^item> the extension is \<^verbatim>\<open>png\<close> when the mime type has no slash, as the \<^verbatim>\<open>undefined\<close> that a
    part without mime type prints;
  \<^item> the extension is \<^verbatim>\<open>png\<close> when the pattern matches nowhere in the address, which is so
    when no \<^verbatim>\<open>;\<close> follows the leading \<^verbatim>\<open>data:\<close>;
  \<^item> when the mime type is empty (\<^verbatim>\<open>data:;\<close>), the pattern is looked for in the rest of
    the address; the extension is \<^verbatim>\<open>png\<close> when that rest holds no colon.
  Nothing more is promised for a mime type that is absent or malformed.
\<close>

theorem C7_download_filename_from_pattern:
  "(startsWith (get (generatedImage_src s)) ''data:''
      \<longrightarrow> handleDownloadClick get s now False
          = (s, Some \<lparr>href = get (generatedImage_src s),
                      download = ''stylized-image-'' @ show_nat now @ ''.''
                                   @ extension (url_mimeType (get (generatedImage_src s)))\<rparr>))
   \<and> (m \<noteq> [] \<and> CHR '';'' \<notin> set m
      \<longrightarrow> url_mimeType (''data:'' @ m @ '';'' @ rest) = m)
   \<and> (sub \<noteq> [] \<and> CHR '';'' \<notin> set ty \<and> CHR '';'' \<notin> set sub
        \<and> CHR ''/'' \<notin> set ty \<and> CHR ''/'' \<notin> set sub
      \<longrightarrow> extension (url_mimeType (''data:'' @ ty @ ''/'' @ sub @ '';'' @ rest_sub)) = sub)
   \<and> (get_j (generatedImage_src s_j) = ''data:image/jpeg;'' @ rest_j
      \<longrightarrow> snd (handleDownloadClick get_j s_j now_j False)
          = Some \<lparr>href = ''data:image/jpeg;'' @ rest_j,
                  download = ''stylized-image-'' @ show_nat now_j @ ''.jpeg''\<rparr>)
   \<and> (CHR '';'' \<notin> set ty_g \<and> CHR ''/'' \<notin> set ty_g \<and> CHR '';'' \<notin> set tail
      \<longrightarrow> extension (url_mimeType (''data:'' @ ty_g @ ''/'' @ tail @ '';'' @ rest_g))
          = (if takeWhile (\<lambda>c. c \<noteq> CHR ''/'') tail = [] then ''png''
             else takeWhile (\<lambda>c. c \<noteq> CHR ''/'') tail))
   \<and> (m_plain \<noteq> [] \<and> CHR '';'' \<notin> set m_plain \<and> CHR ''/'' \<notin> set m_plain
      \<longrightarrow> extension (url_mimeType (''data:'' @ m_plain @ '';'' @ rest_plain)) = ''png'')
   \<and> (regex_match url = None \<longrightarrow> extension (url_mimeType url) = ''png'')
   \<and> (CHR '';'' \<notin> set body \<longrightarrow> extension (url_mimeType (''data:'' @ body)) = ''png'')
   \<and> url_mimeType (''data:;'' @ rest_e) = url_mimeType rest_e
   \<and> (CHR '':'' \<notin> set rest_c \<longrightarrow> extension (url_mimeType (''data:;'' @ rest_c)) = ''png'')"
proof (intro conjI impI)
  assume a: "startsWith (get (generatedImage_src s)) ''data:''"
  then have "get (generatedImage_src s) \<noteq> []" unfolding startsWith_iff by auto
  with a show "handleDownloadClick get s now False
          = (s, Some \<lparr>href = get (generatedImage_src s),
                      download = ''stylized-image-'' @ show_nat now @ ''.''
                                   @ extension (url_mimeType (get (generatedImage_src s)))\<rparr>)"
    by (simp add: handleDownloadClick_def Let_def)
next
  assume "m \<noteq> [] \<and> CHR '';'' \<notin> set m"
  then have "url_mimeType (''data:'' @ m @ CHR '';'' # rest) = m"
    by (intro url_mimeType_data_uri) simp_all
  then show "url_mimeType (''data:'' @ m @ '';'' @ rest) = m" by simp
next
  assume a: "sub \<noteq> [] \<and> CHR '';'' \<notin> set ty \<and> CHR '';'' \<notin> set sub
        \<and> CHR ''/'' \<notin> set ty \<and> CHR ''/'' \<notin> set sub"
  then have "url_mimeType (''data:'' @ (ty @ CHR ''/'' # sub) @ CHR '';'' # rest_sub)
      = ty @ CHR ''/'' # sub"
    by (intro url_mimeType_data_uri) simp_all
  then have "url_mimeType (''data:'' @ ty @ ''/'' @ sub @ '';'' @ rest_sub) = ty @ CHR ''/'' # sub"
    by simp
  with a show "extension (url_mimeType (''data:'' @ ty @ ''/'' @ sub @ '';'' @ rest_sub)) = sub"
    by (simp add: extension_subtype)
next
  assume a: "get_j (generatedImage_src s_j) = ''data:image/jpeg;'' @ rest_j"
  have u: "url_mimeType (''data:'' @ ''image/jpeg'' @ CHR '';'' # rest_j) = ''image/jpeg''"
    by (intro url_mimeType_data_uri) simp_all
  have e: "extension (''image'' @ CHR ''/'' # ''jpeg'') = ''jpeg''"
    by (intro extension_subtype) simp_all
  from u e have x: "extension (url_mimeType (''data:image/jpeg;'' @ rest_j)) = ''jpeg''"
    by simp
  have st: "startsWith (''data:image/jpeg;'' @ rest_j) ''data:''"
    by (simp add: startsWith_def)
  show "snd (handleDownloadClick get_j s_j now_j False)
          = Some \<lparr>href = ''data:image/jpeg;'' @ rest_j,
                  download = ''stylized-image-'' @ show_nat now_j @ ''.jpeg''\<rparr>"
    unfolding handleDownloadClick_def Let_def a
    using x st by simp
next
  assume a: "CHR '';'' \<notin> set ty_g \<and> CHR ''/'' \<notin> set ty_g \<and> CHR '';'' \<notin> set tail"
  then have "url_mimeType (''data:'' @ (ty_g @ CHR ''/'' # tail) @ CHR '';'' # rest_g)
      = ty_g @ CHR ''/'' # tail"
    by (intro url_mimeType_data_uri) simp_all
  then have u: "url_mimeType (''data:'' @ ty_g @ ''/'' @ tail @ '';'' @ rest_g)
      = ty_g @ CHR ''/'' # tail"
    by simp
  from a have "CHR ''/'' \<notin> set ty_g" by simp
  then have e: "extension (ty_g @ CHR ''/'' # tail)
      = (if takeWhile (\<lambda>c. c \<noteq> CHR ''/'') tail = [] then ''png''
         else takeWhile (\<lambda>c. c \<noteq> CHR ''/'') tail)"
    by (rule extension_second_piece)
  show "extension (url_mimeType (''data:'' @ ty_g @ ''/'' @ tail @ '';'' @ rest_g))
          = (if takeWhile (\<lambda>c. c \<noteq> CHR ''/'') tail = [] then ''png''
             else takeWhile (\<lambda>c. c \<noteq> CHR ''/'') tail)"
    by (simp only: u e)
next
  assume a: "m_plain \<noteq> [] \<and> CHR '';'' \<notin> set m_plain \<and> CHR ''/'' \<notin> set m_plain"
  then have "url_mimeType (''data:'' @ m_plain @ CHR '';'' # rest_plain) = m_plain"
    by (intro url_mimeType_data_uri) simp_all
  then have "url_mimeType (''data:'' @ m_plain @ '';'' @ rest_plain) = m_plain" by simp
  with a show "extension (url_mimeType (''data:'' @ m_plain @ '';'' @ rest_plain)) = ''png''"
    by (simp add: extension_no_slash)
next
  assume "regex_match url = None"
  then show "extension (url_mimeType url) = ''png''"
    by (simp add: url_mimeType_def extension_default)
next
  assume "CHR '';'' \<notin> set body"
  then have "CHR '';'' \<notin> set (''data:'' @ body)" by simp
  then have "regex_match (''data:'' @ body) = None" by (rule regex_match_needs_semicolon)
  then show "extension (url_mimeType (''data:'' @ body)) = ''png''"
    by (simp only: url_mimeType_def option.case extension_default)
next
  show "url_mimeType (''data:;'' @ rest_e) = url_mimeType rest_e"
    by (simp only: url_mimeType_def regex_match_empty_front)
next
  assume "CHR '':'' \<notin> set rest_c"
  then have "regex_match rest_c = None" by (rule regex_match_needs_colon)
  then have "regex_match (''data:;'' @ rest_c) = None" by (simp only: regex_match_empty_front)
  then show "extension (url_mimeType (''data:;'' @ rest_c)) = ''png''"
    by (simp only: url_mimeType_def option.case extension_default)
qed

theorem C7_download_filename_from_pattern_witness:
  "snd (handleDownloadClick (\<lambda>u. u)
          (render \<lparr>blob_data = Some ''AAAA'', blob_mimeType = Some ''image/png''\<rparr> uploaded_page)
          1730566800123 False)
     = Some \<lparr>href = ''data:image/png;base64,AAAA'',
             download = ''stylized-image-1730566800123.png''\<rparr>
   \<and> url_mimeType (''data:'' @ ''image/png'' @ '';'' @ ''base64,AAAA'') = ''image/png''
   \<and> extension (url_mimeType (''data:'' @ ''image'' @ ''/'' @ ''svg+xml'' @ '';'' @ ''base64,AAAA''))
       = ''svg+xml''
   \<and> snd (handleDownloadClick without_line_feeds
          (render \<lparr>blob_data = Some (''AA'' @ [CHR 0x0A] @ ''AA''),
                   blob_mimeType = Some ''image/jpeg''\<rparr> uploaded_page)
          1730566800123 False)
     = Some \<lparr>href = ''data:image/jpeg;base64,AAAA'',
             download = ''stylized-image-1730566800123.jpeg''\<rparr>
   \<and> extension (url_mimeType (''data:'' @ ''a'' @ ''/'' @ ''b/c'' @ '';'' @ ''base64,AAAA'')) = ''b''
   \<and> extension (url_mimeType (''data:'' @ ''undefined'' @ '';'' @ ''base64,AAAA'')) = ''png''
   \<and> extension (url_mimeType ''data:,hello'') = ''png''
   \<and> extension (url_mimeType (''data:'' @ ''image/jpeg,hello'')) = ''png''
   \<and> extension (url_mimeType (''data:;'' @ ''base64,AAAA'')) = ''png''"
proof -
  let ?s = "render \<lparr>blob_data = Some ''AAAA'', blob_mimeType = Some ''image/png''\<rparr> uploaded_page"
  let ?sj = "render \<lparr>blob_data = Some (''AA'' @ [CHR 0x0A] @ ''AA''),
                     blob_mimeType = Some ''image/jpeg''\<rparr> uploaded_page"
  have src: "generatedImage_src ?s = ''data:image/png;base64,AAAA''"
    by (simp add: render_def)
  have h1: "startsWith ((\<lambda>u. u) (generatedImage_src ?s)) ''data:''"
    by (simp add: render_def startsWith_def)
  have h2: "''image/png'' \<noteq> [] \<and> CHR '';'' \<notin> set ''image/png''" by simp
  have h3: "''svg+xml'' \<noteq> [] \<and> CHR '';'' \<notin> set ''image'' \<and> CHR '';'' \<notin> set ''svg+xml''
        \<and> CHR ''/'' \<notin> set ''image'' \<and> CHR ''/'' \<notin> set ''svg+xml''"
    by simp
  have h4: "without_line_feeds (generatedImage_src ?sj) = ''data:image/jpeg;'' @ ''base64,AAAA''"
    by (simp add: render_def without_line_feeds_def)
  have h5: "CHR '';'' \<notin> set ''a'' \<and> CHR ''/'' \<notin> set ''a'' \<and> CHR '';'' \<notin> set ''b/c''" by simp
  have h6: "''undefined'' \<noteq> [] \<and> CHR '';'' \<notin> set ''undefined'' \<and> CHR ''/'' \<notin> set ''undefined''"
    by simp
  have h7: "regex_match ''data:,hello'' = None"
    by (simp add: match_here_def startsWith_def)
  have h8: "CHR '';'' \<notin> set ''image/jpeg,hello''" by simp
  have h10: "CHR '':'' \<notin> set ''base64,AAAA''" by simp
  note inst = C7_download_filename_from_pattern
    [where get = "\<lambda>u. u" and s = ?s and now = 1730566800123
       and m = "''image/png''" and rest = "''base64,AAAA''"
       and ty = "''image''" and sub = "''svg+xml''" and rest_sub = "''base64,AAAA''"
       and get_j = without_line_feeds and s_j = ?sj and now_j = 1730566800123
       and rest_j = "''base64,AAAA''"
       and ty_g = "''a''" and tail = "''b/c''" and rest_g = "''base64,AAAA''"
       and m_plain = "''undefined''" and rest_plain = "''base64,AAAA''"
       and url = "''data:,hello''" and body = "''image/jpeg,hello''"
       and rest_c = "''base64,AAAA''"]
  note c1 = inst [THEN conjunct1, THEN mp, OF h1]
  note c2 = inst [THEN conjunct2, THEN conjunct1, THEN mp, OF h2]
  note c3 = inst [THEN conjunct2, THEN conjunct2, THEN conjunct1, THEN mp, OF h3]
  note c4 = inst [THEN conjunct2, THEN conjunct2, THEN conjunct2, THEN conjunct1, THEN mp, OF h4]
  note c5 = inst [THEN conjunct2, THEN conjunct2, THEN conjunct2, THEN conjunct2, THEN conjunct1,
      THEN mp, OF h5]
  note c6 = inst [THEN conjunct2, THEN conjunct2, THEN conjunct2, THEN conjunct2, THEN conjunct2,
      THEN conjunct1, THEN mp, OF h6]
  note c7 = inst [THEN conjunct2, THEN conjunct2, THEN conjunct2, THEN conjunct2, THEN conjunct2,
      THEN conjunct2, THEN conjunct1, THEN mp, OF h7]
  note c8 = inst [THEN conjunct2, THEN conjunct2, THEN conjunct2, THEN conjunct2, THEN conjunct2,
      THEN conjunct2, THEN conjunct2, THEN conjunct1, THEN mp, OF h8]
  note c10 = inst [THEN conjunct2, THEN conjunct2, THEN conjunct2, THEN conjunct2, THEN conjunct2,
      THEN conjunct2, THEN conjunct2, THEN conjunct2, THEN conjunct2, THEN mp, OF h10]
  have n: "show_nat 1730566800123 = ''1730566800123''"
    by (simp add: show_nat.simps digit_char_def)
  have e: "extension (url_mimeType ''data:image/png;base64,AAAA'') = ''png''"
    by (simp add: extension_def url_mimeType_def match_here_def startsWith_def)
  have w1: "snd (handleDownloadClick (\<lambda>u. u) ?s 1730566800123 False)
     = Some \<lparr>href = ''data:image/png;base64,AAAA'',
             download = ''stylized-image-1730566800123.png''\<rparr>"
    using c1 by (simp add: src n e)
  have w4: "snd (handleDownloadClick without_line_feeds ?sj 1730566800123 False)
     = Some \<lparr>href = ''data:image/jpeg;base64,AAAA'',
             download = ''stylized-image-1730566800123.jpeg''\<rparr>"
    using c4 by (simp add: n)
  have w5: "extension (url_mimeType (''data:'' @ ''a'' @ ''/'' @ ''b/c'' @ '';'' @ ''base64,AAAA''))
      = ''b''"
    using c5 by simp
  from w1 c2 c3 w4 w5 c6 c7 c8 c10 show ?thesis by (intro conjI)
qed


section \<open>Cache-first fetch\<close>

lemma caches_match_None_iff:
  "caches_match caches rq = None \<longleftrightarrow> (\<forall>c\<in>set (map snd caches). c rq = None)"
  by (induction caches) (auto split: option.splits)

text \<open>
  C8. Claimed: the worker looks the request up in the named cache and goes to the network
  when that cache has no match. The lookup is \<^verbatim>\<open>caches.match\<close>, over every cache of the
  origin: with an older cache beside the worker's own, a request that the named cache
  does not match is answered from the older cache, and the network is not called.
\<close>

theorem C8_answer_from_another_cache:
  "map_option (\<lambda>c. c ''/legacy.css'') (named_cache two_caches CACHE_NAME) = Some None
   \<and> responded (fetch_listener two_caches online ''/legacy.css'') = Some ''stale stylesheet''
   \<and> network_calls (fetch_listener two_caches online ''/legacy.css'') = []"
  by (simp add: two_caches_def CACHE_NAME_def fetch_listener_def)

text \<open>
  C8, as amended. For every intercepted request the worker asks the whole cache storage of
  the origin for a match, cache by cache in the order of creation. If some cache matches,
  the first match is the response and the network is not called. If no cache matches, the
  same request goes to the network and the network's answer is the response. In both cases
  the cache storage is left as it was: nothing is written back. When the named cache is
  the only cache of the storage, the lookup is the lookup in the named cache.
\<close>

theorem C8_cache_first_over_whole_storage:
  "(caches_match caches rq = Some r
      \<longrightarrow> fetch_listener caches network rq
          = \<lparr>responded = Some r, network_calls = [], storage_after = caches\<rparr>)
   \<and> (caches_match caches rq = None
      \<longrightarrow> fetch_listener caches network rq
          = \<lparr>responded = network rq, network_calls = [rq], storage_after = caches\<rparr>)
   \<and> storage_after (fetch_listener caches network rq) = caches
   \<and> (caches_match caches rq = None \<longleftrightarrow> (\<forall>c\<in>set (map snd caches). c rq = None))
   \<and> ((\<forall>q\<in>set pre. snd q rq = None) \<and> c rq = Some r'
      \<longrightarrow> caches_match (pre @ (name, c) # post) rq = Some r')
   \<and> caches_match [(CACHE_NAME, c)] rq = c rq"
proof (intro conjI impI)
  show "caches_match caches rq = None \<longleftrightarrow> (\<forall>c\<in>set (map snd caches). c rq = None)"
    by (rule caches_match_None_iff)
  show "storage_after (fetch_listener caches network rq) = caches"
    by (simp add: fetch_listener_def split: option.splits)
  show "caches_match [(CACHE_NAME, c)] rq = c rq"
    by (simp split: option.splits)
next
  assume "caches_match caches rq = Some r"
  then show "fetch_listener caches network rq
          = \<lparr>responded = Some r, network_calls = [], storage_after = caches\<rparr>"
    by (simp add: fetch_listener_def)
next
  assume "caches_match caches rq = None"
  then show "fetch_listener caches network rq
          = \<lparr>responded = network rq, network_calls = [rq], storage_after = caches\<rparr>"
    by (simp add: fetch_listener_def)
next
  assume "(\<forall>q\<in>set pre. snd q rq = None) \<and> c rq = Some r'"
  then show "caches_match (pre @ (name, c) # post) rq = Some r'"
    by (induction pre) auto
qed

theorem C8_cache_first_over_whole_storage_witness:
  "fetch_listener two_caches online ''/index.js''
     = \<lparr>responded = Some ''script'', network_calls = [], storage_after = two_caches\<rparr>
   \<and> fetch_listener two_caches online ''/api''
     = \<lparr>responded = Some ''fresh /api'', network_calls = [''/api''], storage_after = two_caches\<rparr>
   \<and> caches_match two_caches ''/legacy.css'' = Some ''stale stylesheet''"
proof -
  have h1: "caches_match two_caches ''/index.js'' = Some ''script''"
    by (simp add: two_caches_def)
  have h2: "caches_match two_caches ''/api'' = None"
    by (simp add: two_caches_def)
  have n: "online ''/api'' = Some ''fresh /api''" by (simp add: online_def)
  have h3: "(\<forall>q\<in>set []. snd q ''/legacy.css'' = None)
      \<and> [''/legacy.css'' \<mapsto> ''stale stylesheet''] ''/legacy.css'' = Some ''stale stylesheet''"
    by simp
  have t: "two_caches = [] @ (''image-style-transfer-v0'', [''/legacy.css'' \<mapsto> ''stale stylesheet''])
      # [(CACHE_NAME, [''/index.js'' \<mapsto> ''script''])]"
    by (simp add: two_caches_def)
  note hit = C8_cache_first_over_whole_storage
    [of two_caches "''/index.js''" "''script''" online, THEN conjunct1, THEN mp, OF h1]
  note miss = C8_cache_first_over_whole_storage
    [of two_caches "''/api''" _ online, THEN conjunct2, THEN conjunct1, THEN mp, OF h2]
  note first = C8_cache_first_over_whole_storage
    [of _ "''/legacy.css''" _ _ "[]" "[''/legacy.css'' \<mapsto> ''stale stylesheet'']"
        "''stale stylesheet''" "''image-style-transfer-v0''"
        "[(CACHE_NAME, [''/index.js'' \<mapsto> ''script''])]",
     THEN conjunct2, THEN conjunct2, THEN conjunct2, THEN conjunct2, THEN conjunct1,
     THEN mp, OF h3]
  have a: "fetch_listener two_caches online ''/index.js''
     = \<lparr>responded = Some ''script'', network_calls = [], storage_after = two_caches\<rparr>"
    by (rule hit)
  have b: "fetch_listener two_caches online ''/api''
     = \<lparr>responded = Some ''fresh /api'', network_calls = [''/api''], storage_after = two_caches\<rparr>"
    using miss by (simp only: n)
  have c: "caches_match two_caches ''/legacy.css'' = Some ''stale stylesheet''"
    using first by (simp only: t)
  from a b c show ?thesis by (intro conjI)
qed

end
